theory Spec2Isabelle
  imports Complex_Main "HOL-Library.Monad_Syntax"
begin

section \<open>GROMACS topology reader (grotopplugin.c)\<close>

text \<open>
  A shallow embedding of the topology parser, its conditional-compilation preprocessor and the
  instantiator of \<^verbatim>\<open>grotopplugin.c\<close>.

  Conventions of the model:
  \<^item> A \<^verbatim>\<open>FILE *\<close> is the list of records that successive calls of \<^verbatim>\<open>fgets\<close> still have to
    return (a line with its newline, or a piece of \<open>GROTOP_RECORD_LENGTH - 1\<close> characters of
    a longer line); \<^verbatim>\<open>ftell\<close> followed by \<^verbatim>\<open>fseek\<close> to the saved position puts the record just
    read back at the front of that list.
  \<^item> A C \<^verbatim>\<open>int\<close> has 32 bits. A value stored by \<^verbatim>\<open>%d\<close>, the totals that \<^verbatim>\<open>open_grotop_read\<close>
    computes, on which the read functions branch, and the \<^verbatim>\<open>int\<close> products in the sizes passed
    to \<^verbatim>\<open>malloc\<close> are reduced to 32 bits (\<open>int32\<close>): signed overflow is undefined in C, and
    the model takes the two's complement result. The sums that are only emitted (a record's
    index plus the atom offset, a residue number plus the residue offset) are written in
    \<open>int\<close>; the C value is their reduction to 32 bits.
  \<^item> A C \<^verbatim>\<open>float\<close> is a \<open>cfloat\<close>: a rational number that binary32 represents, an infinity or
    NaN. The zero has no sign.
  \<^item> \<^verbatim>\<open>sscanf\<close> is the one of the GNU C library in the C locale, on a machine with a 64-bit
    \<^verbatim>\<open>long\<close>.
  \<^item> \<^verbatim>\<open>calloc\<close>, \<^verbatim>\<open>malloc\<close> and \<^verbatim>\<open>realloc\<close> succeed, except where the requested size is negative.
  \<^item> Messages written to stdout and stderr are not part of the model.
\<close>

subsection \<open>Constants\<close>

definition GROTOP_RECORD_LENGTH :: nat where "GROTOP_RECORD_LENGTH = 512"
definition MAX_INCLUDES :: nat where "MAX_INCLUDES = 100"
definition MAX_MOLTYPES :: nat where "MAX_MOLTYPES = 500"
definition MAX_MOLECULES :: nat where "MAX_MOLECULES = 1000"
definition MAX_ATOMTYPES :: nat where "MAX_ATOMTYPES = 1000"
definition MAX_DEFINES :: nat where "MAX_DEFINES = 100"
definition MAX_IFDEF_DEPTH :: nat where "MAX_IFDEF_DEPTH = 20"

subsection \<open>Machine numbers\<close>

definition int32 :: "int \<Rightarrow> int" where
  \<comment> \<open>the \<^verbatim>\<open>int\<close> that holds x after a store or an overflowing operation: x modulo \<open>2^32\<close> in
      \<open>[-2^31, 2^31)\<close>\<close>
  "int32 x = (x + 2147483648) mod 4294967296 - 2147483648"

definition long_sat :: "int \<Rightarrow> int" where
  \<comment> \<open>\<^verbatim>\<open>strtol\<close> returns \<^verbatim>\<open>LONG_MIN\<close> or \<^verbatim>\<open>LONG_MAX\<close> for a number out of the range of \<^verbatim>\<open>long\<close>\<close>
  "long_sat x = max (- 9223372036854775808) (min 9223372036854775807 x)"

datatype cfloat = Finite rat | Infinite bool | NaN

text \<open>
  \<open>Infinite True\<close> is the negative infinity. The comparisons are those of IEEE 754: false
  whenever an operand is NaN.
\<close>

instantiation cfloat :: "{zero, ord}"
begin

definition zero_cfloat :: cfloat where
  "zero_cfloat = Finite 0"

fun less_cfloat :: "cfloat \<Rightarrow> cfloat \<Rightarrow> bool" where
  "less_cfloat (Finite a) (Finite b) = (a < b)"
| "less_cfloat (Finite a) (Infinite n) = (\<not> n)"
| "less_cfloat (Infinite n) (Finite b) = n"
| "less_cfloat (Infinite n) (Infinite m) = (n \<and> \<not> m)"
| "less_cfloat NaN y = False"
| "less_cfloat x NaN = False"

fun less_eq_cfloat :: "cfloat \<Rightarrow> cfloat \<Rightarrow> bool" where
  "less_eq_cfloat (Finite a) (Finite b) = (a \<le> b)"
| "less_eq_cfloat (Finite a) (Infinite n) = (\<not> n)"
| "less_eq_cfloat (Infinite n) (Finite b) = n"
| "less_eq_cfloat (Infinite n) (Infinite m) = (\<not> (m \<and> \<not> n))"
| "less_eq_cfloat NaN y = False"
| "less_eq_cfloat x NaN = False"

instance ..

end

definition fneg :: "bool \<Rightarrow> cfloat \<Rightarrow> cfloat" where
  \<comment> \<open>\<^verbatim>\<open>negative ? -d : d\<close>\<close>
  "fneg negative d = (if negative then (case d of
       Finite x \<Rightarrow> Finite (- x)
     | Infinite n \<Rightarrow> Infinite (\<not> n)
     | NaN \<Rightarrow> NaN) else d)"

function bitlen :: "int \<Rightarrow> int" where
  \<comment> \<open>the number of binary digits of a positive n\<close>
  "bitlen n = (if n \<le> 0 then 0 else 1 + bitlen (n div 2))"
  by pat_completeness auto
termination
  by (relation "measure nat") auto

declare bitlen.simps [simp del]

definition pow2 :: "int \<Rightarrow> rat" where
  "pow2 e = (if 0 \<le> e then 2 ^ nat e else 1 / 2 ^ nat (- e))"

definition pow10 :: "int \<Rightarrow> rat" where
  "pow10 e = (if 0 \<le> e then 10 ^ nat e else 1 / 10 ^ nat (- e))"

definition floor_log2 :: "rat \<Rightarrow> int" where
  \<comment> \<open>for \<open>x > 0\<close>, the e with \<open>2^e \<le> x < 2^(e+1)\<close>\<close>
  "floor_log2 x = (let (p, q) = quotient_of x;
                       d = bitlen p - bitlen q
                   in if pow2 d \<le> x then d else d - 1)"

definition round_half_even :: "rat \<Rightarrow> int" where
  "round_half_even x = (let f = \<lfloor>x\<rfloor>; r = x - of_int f in
     if r < 1 / 2 then f else if 1 / 2 < r then f + 1 else if even f then f else f + 1)"

definition float_of_rat :: "rat \<Rightarrow> cfloat" where
  \<comment> \<open>the binary32 value nearest to x, ties to even: 24 significant bits, the least exponent
      \<open>-126\<close> (below it the spacing stays \<open>2^-149\<close>), an infinity from \<open>2^128\<close> on\<close>
  "float_of_rat x =
     (if x = 0 then Finite 0
      else let a = \<bar>x\<bar>;
               e = floor_log2 a;
               ulp = pow2 (if e < - 126 then - 149 else e - 23);
               y = of_int (round_half_even (a / ulp)) * ulp
           in if pow2 128 \<le> y then Infinite (x < 0)
              else Finite (if x < 0 then - y else y))"

subsection \<open>Characters and the conversions of sscanf\<close>

definition isspace :: "char \<Rightarrow> bool" where
  \<comment> \<open>the C locale: space, \<^verbatim>\<open>\t \n \v \f \r\<close>\<close>
  "isspace c \<longleftrightarrow> c = CHR '' '' \<or> c = CHR 0x09 \<or> c = CHR 0x0A \<or> c = CHR 0x0B
                 \<or> c = CHR 0x0C \<or> c = CHR 0x0D"

definition isdigit :: "char \<Rightarrow> bool" where
  "isdigit c \<longleftrightarrow> (48::nat) \<le> of_char c \<and> of_char c \<le> (57::nat)"

definition toupper :: "char \<Rightarrow> char" where
  "toupper c = (if (97::nat) \<le> of_char c \<and> of_char c \<le> (122::nat)
                then char_of (of_char c - (32::nat)) else c)"

definition tolower :: "char \<Rightarrow> char" where
  "tolower c = (if (65::nat) \<le> of_char c \<and> of_char c \<le> (90::nat)
                then char_of (of_char c + (32::nat)) else c)"

definition isxdigit :: "char \<Rightarrow> bool" where
  "isxdigit c \<longleftrightarrow> isdigit c \<or> (97::nat) \<le> of_char (tolower c) \<and> of_char (tolower c) \<le> (102::nat)"

definition skip_ws :: "string \<Rightarrow> string" where
  \<comment> \<open>\<^verbatim>\<open>while (*p && isspace(*p)) p++;\<close>\<close>
  "skip_ws s = dropWhile isspace s"

definition token :: "string \<Rightarrow> string" where
  \<comment> \<open>the characters up to the next white space\<close>
  "token s = takeWhile (\<lambda>c. \<not> isspace c) s"

definition dec_val :: "string \<Rightarrow> int" where
  "dec_val ds = foldl (\<lambda>a c. 10 * a + (int (of_char c) - 48)) 0 ds"

definition hex_val :: "string \<Rightarrow> int" where
  "hex_val ds = foldl (\<lambda>a c. 16 * a + (if isdigit c then int (of_char c) - 48
                                         else int (of_char (tolower c)) - 87)) 0 ds"

definition scan_sign :: "string \<Rightarrow> bool \<times> string" where
  \<comment> \<open>an optional sign; True for minus\<close>
  "scan_sign p = (case p of
       [] \<Rightarrow> (False, p)
     | c # r \<Rightarrow> if c = CHR ''-'' then (True, r) else if c = CHR ''+'' then (False, r)
                else (False, p))"

definition scan_s :: "nat \<Rightarrow> string \<Rightarrow> (string \<times> string) option" where
  \<comment> \<open>\<^verbatim>\<open>%Ns\<close>: skip white space, then at most N characters that are not white space; an
      input failure at the end of the string\<close>
  "scan_s w s = (let p = skip_ws s in
     if p = [] then None
     else let tok = token (take w p) in Some (tok, drop (length tok) p))"

definition scan_skip :: "string \<Rightarrow> string option" where
  \<comment> \<open>\<^verbatim>\<open>%*s\<close>: a whole token, not assigned\<close>
  "scan_skip s = (let p = skip_ws s in
     if p = [] then None else Some (dropWhile (\<lambda>c. \<not> isspace c) p))"

definition scan_d :: "string \<Rightarrow> (int \<times> string) option" where
  \<comment> \<open>\<^verbatim>\<open>%d\<close>: skip white space, an optional sign, at least one decimal digit; the digits are
      converted by \<^verbatim>\<open>strtol\<close> and the \<^verbatim>\<open>long\<close> is stored through an \<^verbatim>\<open>int *\<close>\<close>
  "scan_d s = (let (neg, q) = scan_sign (skip_ws s); ds = takeWhile isdigit q in
     if ds = [] then None
     else Some (int32 (long_sat (if neg then - dec_val ds else dec_val ds)),
                dropWhile isdigit q))"

text \<open>
  \<^verbatim>\<open>%f\<close> reads the longest run of characters that can start a floating-point number into a
  buffer and converts the buffer with \<^verbatim>\<open>strtof\<close>, which takes the longest prefix of the buffer
  that is a number. So an exponent character that no digit follows is read, and ignored by the
  conversion (\<^verbatim>\<open>1e\<close> is 1); the same holds for a sign after it. The conversion fails when the
  buffer holds no digit. A number is \<^verbatim>\<open>nan\<close>, \<^verbatim>\<open>inf\<close> or \<^verbatim>\<open>infinity\<close> in either case, a hexadecimal
  number after \<^verbatim>\<open>0x\<close> with a binary exponent after \<^verbatim>\<open>p\<close>, or a decimal number.
\<close>

fun prefix_ci :: "string \<Rightarrow> string \<Rightarrow> bool" where
  \<comment> \<open>the next characters are those of w, in either case\<close>
  "prefix_ci [] s = True"
| "prefix_ci (w # ws) [] = False"
| "prefix_ci (w # ws) (c # cs) = (tolower c = w \<and> prefix_ci ws cs)"

definition scan_frac :: "(char \<Rightarrow> bool) \<Rightarrow> string \<Rightarrow> bool \<times> string \<times> string" where
  \<comment> \<open>the optional point with the digits after it: whether there is a point, the digits,
      the rest\<close>
  "scan_frac dig r = (case r of
       [] \<Rightarrow> (False, [], r)
     | c # r' \<Rightarrow> if c = CHR ''.'' then (True, takeWhile dig r', dropWhile dig r')
                 else (False, [], r))"

definition scan_exp :: "char \<Rightarrow> bool \<Rightarrow> string \<Rightarrow> int \<times> string" where
  \<comment> \<open>the exponent, which is read only after a digit: the exponent character, an optional sign
      and digits; without digits the exponent is 0\<close>
  "scan_exp exp_char got_digit r = (case r of
       [] \<Rightarrow> (0, r)
     | c # r' \<Rightarrow>
         if got_digit \<and> tolower c = exp_char then
           (let (neg, q) = scan_sign r'; ds = takeWhile isdigit q in
            (if neg then - dec_val ds else dec_val ds, dropWhile isdigit q))
         else (0, r))"

definition scan_dec :: "bool \<Rightarrow> string \<Rightarrow> (cfloat \<times> string) option" where
  \<comment> \<open>a decimal number: digits with an optional point, at least one digit in all, and an
      optional exponent\<close>
  "scan_dec negative q =
     (let ip = takeWhile isdigit q;
          (dot, fp, r2) = scan_frac isdigit (dropWhile isdigit q);
          (e, r3) = scan_exp CHR ''e'' (\<not> (ip = [] \<and> fp = [])) r2
      in if ip = [] \<and> fp = [] then None
         else Some (fneg negative
                      (float_of_rat (of_int (dec_val (ip @ fp)) / 10 ^ length fp * pow10 e)),
                    r3))"

definition scan_hex :: "bool \<Rightarrow> string \<Rightarrow> (cfloat \<times> string) option" where
  \<comment> \<open>what follows \<^verbatim>\<open>0x\<close>: hexadecimal digits with an optional point and, after a digit, an
      optional binary exponent. Nothing after \<^verbatim>\<open>0x\<close> is a matching failure; a point without a
      digit is read and the conversion takes the \<^verbatim>\<open>0\<close> alone\<close>
  "scan_hex negative q =
     (let ip = takeWhile isxdigit q;
          (dot, fp, r2) = scan_frac isxdigit (dropWhile isxdigit q);
          (e, r3) = scan_exp CHR ''p'' (\<not> (ip = [] \<and> fp = [])) r2
      in if ip = [] \<and> \<not> dot then None
         else Some (fneg negative
                      (float_of_rat (of_int (hex_val (ip @ fp)) / 16 ^ length fp * pow2 e)),
                    r3))"

definition scan_inf :: "bool \<Rightarrow> string \<Rightarrow> (cfloat \<times> string) option" where
  \<comment> \<open>what follows an \<^verbatim>\<open>i\<close>: \<^verbatim>\<open>nf\<close>, and if another \<^verbatim>\<open>i\<close> follows, all of \<^verbatim>\<open>inity\<close>\<close>
  "scan_inf negative r =
     (if prefix_ci ''nf'' r then
        (if prefix_ci ''i'' (drop 2 r) then
           (if prefix_ci ''nity'' (drop 3 r) then Some (Infinite negative, drop 7 r) else None)
         else Some (Infinite negative, drop 2 r))
      else None)"

definition scan_f :: "string \<Rightarrow> (cfloat \<times> string) option" where
  \<comment> \<open>\<^verbatim>\<open>%f\<close>: skip white space (an input failure at the end of the string), an optional sign,
      then one of the forms of a number\<close>
  "scan_f s = (let p = skip_ws s in
     if p = [] then None
     else let (negative, q) = scan_sign p in
       (case q of
          [] \<Rightarrow> None
        | c # r \<Rightarrow>
            if tolower c = CHR ''n'' then
              (if prefix_ci ''an'' r then Some (NaN, drop 2 r) else None)
            else if tolower c = CHR ''i'' then scan_inf negative r
            else if c = CHR ''0'' \<and> prefix_ci ''x'' r then scan_hex negative (drop 1 r)
            else scan_dec negative q))"

subsection \<open>Lexical helpers\<close>

definition strip_comments :: "string \<Rightarrow> string" where
  \<comment> \<open>cut at the first semicolon, trim trailing, then leading white space\<close>
  "strip_comments line =
     skip_ws (rev (skip_ws (rev (takeWhile (\<lambda>c. c \<noteq> CHR '';'') line))))"

definition is_section_header :: "string \<Rightarrow> string option" where
  \<comment> \<open>Some name for return value 1 with \<^verbatim>\<open>section_name\<close> set, None for 0\<close>
  "is_section_header line = (case skip_ws line of
       [] \<Rightarrow> None
     | c # p \<Rightarrow>
         if c \<noteq> CHR ''['' then None
         else let nm = takeWhile (\<lambda>c. c \<noteq> CHR '']'') p in
           if length nm = length p then None
           else if length nm = 0 \<or> length nm \<ge> 64 then None
           else Some (rev (skip_ws (rev (skip_ws nm)))))"

definition is_preprocessor_directive :: "string \<Rightarrow> bool" where
  "is_preprocessor_directive line = (case skip_ws line of [] \<Rightarrow> False | c # p \<Rightarrow> c = CHR ''#'')"

definition is_else_directive :: "string \<Rightarrow> bool" where
  \<comment> \<open>\<^verbatim>\<open>strncmp(p, "#else", 5) == 0\<close>\<close>
  "is_else_directive line \<longleftrightarrow> take 5 (skip_ws line) = ''#else''"

definition is_endif_directive :: "string \<Rightarrow> bool" where
  "is_endif_directive line \<longleftrightarrow> take 6 (skip_ws line) = ''#endif''"

definition parse_ifdef :: "string \<Rightarrow> (string \<times> bool) option" where
  \<comment> \<open>Some (symbol, is_ifndef) for return value 1\<close>
  "parse_ifdef line = (let p = skip_ws line in
     if take 6 p = ''#ifdef'' then
       (let sym = token (skip_ws (drop 6 p)) in
        if length sym = 0 \<or> length sym \<ge> 64 then None else Some (sym, False))
     else if take 7 p = ''#ifndef'' then
       (let sym = token (skip_ws (drop 7 p)) in
        if length sym = 0 \<or> length sym \<ge> 64 then None else Some (sym, True))
     else None)"

definition parse_include :: "string \<Rightarrow> string \<Rightarrow> string option" where
  \<comment> \<open>Some include_path for return value 1: the directory of \<^verbatim>\<open>base_path\<close> (through its last
      slash) followed by the quoted file name\<close>
  "parse_include line base_path = (let p = skip_ws line in
     if take 8 p \<noteq> ''#include'' then None
     else (case skip_ws (drop 8 p) of
         [] \<Rightarrow> None
       | quote # p' \<Rightarrow>
           if quote \<noteq> CHR 0x22 \<and> quote \<noteq> CHR 0x27 then None
           else let filename = takeWhile (\<lambda>c. c \<noteq> quote) p' in
             if length filename = length p' then None
             else if length filename = 0 \<or> length filename \<ge> 256 then None
             else Some (rev (dropWhile (\<lambda>c. c \<noteq> CHR ''/'') (rev base_path)) @ filename)))"

subsection \<open>Data model\<close>

record atom_data =
  ad_id :: int
  atom_type :: string
  resnr :: int
  residue :: string
  atom_name :: string
  cgnr :: int
  charge :: cfloat
  mass :: cfloat

record bond_data =
  b_ai :: int
  b_aj :: int

record angle_data =
  g_ai :: int
  g_aj :: int
  g_ak :: int

record dihedral_data =
  d_ai :: int
  d_aj :: int
  d_ak :: int
  d_al :: int
  funct :: int

record atomtype =
  at_name :: string
  at_mass :: cfloat

text \<open>The arrays of a molecule type with their element counts are lists.\<close>

record moltype =
  mt_name :: string
  nrexcl :: int
  atoms :: "atom_data list"
  bonds :: "bond_data list"
  angles :: "angle_data list"
  dihedrals :: "dihedral_data list"

text \<open>
  \<^verbatim>\<open>grotop_data\<close>: the parallel arrays \<^verbatim>\<open>molnames\<close> and \<^verbatim>\<open>molcounts\<close> are one list of pairs
  (\<open>molecules\<close>, the roster); a table with its counter is a list.
\<close>

record grotop_data =
  moltypes :: "moltype list"
  atomtypes :: "atomtype list"
  molecules :: "(string \<times> int) list"
  defines_tab :: "string list"
  total_atoms :: int
  total_bonds :: int
  total_angles :: int
  total_dihedrals :: int
  total_impropers :: int

definition calloc_grotop_data :: grotop_data where
  "calloc_grotop_data = \<lparr>moltypes = [], atomtypes = [], molecules = [], defines_tab = [],
     total_atoms = 0, total_bonds = 0, total_angles = 0, total_dihedrals = 0,
     total_impropers = 0\<rparr>"

definition create_moltype :: moltype where
  "create_moltype = \<lparr>mt_name = [], nrexcl = 0, atoms = [], bonds = [], angles = [],
     dihedrals = []\<rparr>"

subsection \<open>Symbol tables\<close>

definition is_defined :: "grotop_data \<Rightarrow> string \<Rightarrow> bool" where
  "is_defined data symbol \<longleftrightarrow> List.member (defines_tab data) symbol"

definition add_define :: "grotop_data \<Rightarrow> string \<Rightarrow> grotop_data" where
  "add_define data symbol =
     (if length (defines_tab data) \<ge> MAX_DEFINES then data
      else if is_defined data symbol then data
      else data\<lparr>defines_tab := defines_tab data @ [take 63 symbol]\<rparr>)"

definition parse_define :: "string \<Rightarrow> grotop_data \<Rightarrow> grotop_data option" where
  \<comment> \<open>Some data' for return value 1, None for 0\<close>
  "parse_define line data = (let p = skip_ws line in
     if take 7 p \<noteq> ''#define'' then None
     else let sym = token (skip_ws (drop 7 p)) in
       if length sym = 0 \<or> length sym \<ge> 64 then None
       else Some (add_define data sym))"

definition find_moltype :: "grotop_data \<Rightarrow> string \<Rightarrow> moltype option" where
  \<comment> \<open>the first molecule type of that name; None for NULL\<close>
  "find_moltype data name = List.find (\<lambda>mt. mt_name mt = name) (moltypes data)"

definition find_atomtype_mass :: "grotop_data \<Rightarrow> string \<Rightarrow> cfloat" where
  "find_atomtype_mass data type =
     (case List.find (\<lambda>t. at_name t = type) (atomtypes data) of
        Some t \<Rightarrow> at_mass t
      | None \<Rightarrow> 0)"

subsection \<open>Section parsers\<close>

text \<open>
  The loop that all record parsers share: stop at the end of the file; stop at a preprocessor
  directive or at a section header and put that line back; skip lines that are empty after
  comment stripping; hand every other line to the record parser of the section.
\<close>

fun section_loop :: "(string \<Rightarrow> 'a \<Rightarrow> 'a) \<Rightarrow> string list \<Rightarrow> 'a \<Rightarrow> string list \<times> 'a" where
  "section_loop parse_record [] st = ([], st)"
| "section_loop parse_record (line # fp) st =
     (if is_preprocessor_directive line then (line # fp, st)
      else if strip_comments line = [] then section_loop parse_record fp st
      else if is_section_header (strip_comments line) \<noteq> None then (line # fp, st)
      else section_loop parse_record fp (parse_record (strip_comments line) st))"

definition scan_atomtype :: "string \<Rightarrow> (string \<times> cfloat) option" where
  \<comment> \<open>\<^verbatim>\<open>sscanf(line, "%15s %f", ..) == 2\<close>, else \<^verbatim>\<open>sscanf(line, "%15s %*s %*s %f", ..) == 2\<close>\<close>
  "scan_atomtype line =
     (case do { (name, r1) \<leftarrow> scan_s 15 line; (m, r) \<leftarrow> scan_f r1; Some (name, m) } of
        Some a \<Rightarrow> Some a
      | None \<Rightarrow>
          do {
            (name, r1) \<leftarrow> scan_s 15 line;
            r2 \<leftarrow> scan_skip r1;
            r3 \<leftarrow> scan_skip r2;
            (m, r) \<leftarrow> scan_f r3;
            Some (name, m)
          })"

definition atomtype_record :: "string \<Rightarrow> grotop_data \<Rightarrow> grotop_data" where
  "atomtype_record line data =
     (case scan_atomtype line of
        None \<Rightarrow> data
      | Some (name, m) \<Rightarrow>
          if length (atomtypes data) < MAX_ATOMTYPES
          then data\<lparr>atomtypes := atomtypes data @ [\<lparr>at_name = take 15 name, at_mass = m\<rparr>]\<rparr>
          else data)"

definition parse_atomtypes_section :: "string list \<Rightarrow> grotop_data \<Rightarrow> string list \<times> grotop_data" where
  "parse_atomtypes_section fp data = section_loop atomtype_record fp data"

fun parse_moleculetype_header :: "string list \<Rightarrow> moltype \<Rightarrow> (string list \<times> moltype) option" where
  "parse_moleculetype_header [] mt = None"
| "parse_moleculetype_header (line # fp) mt =
     (if strip_comments line = [] then parse_moleculetype_header fp mt
      else if is_section_header (strip_comments line) \<noteq> None then None
      else (case scan_s 31 (strip_comments line) of
              None \<Rightarrow> parse_moleculetype_header fp mt
            | Some (name, r) \<Rightarrow>
                Some (fp, mt\<lparr>mt_name := take 31 name,
                             nrexcl := (case scan_d r of Some (n, r') \<Rightarrow> n | None \<Rightarrow> 3)\<rparr>)))"

definition scan_atom :: "string \<Rightarrow> atom_data option" where
  \<comment> \<open>\<^verbatim>\<open>sscanf(line, "%d %15s %d %7s %15s %d %f %f", ..) >= 7\<close>: the first seven conversions
      succeed; \<^verbatim>\<open>mass\<close> keeps the 0 of \<^verbatim>\<open>memset\<close> when the eighth fails\<close>
  "scan_atom line =
     do {
       (i, r1) \<leftarrow> scan_d line;
       (ty, r2) \<leftarrow> scan_s 15 r1;
       (rn, r3) \<leftarrow> scan_d r2;
       (res, r4) \<leftarrow> scan_s 7 r3;
       (nm, r5) \<leftarrow> scan_s 15 r4;
       (cg, r6) \<leftarrow> scan_d r5;
       (q, r7) \<leftarrow> scan_f r6;
       Some \<lparr>ad_id = i, atom_type = ty, resnr = rn, residue = res, atom_name = nm, cgnr = cg,
             charge = q, mass = (case scan_f r7 of Some (m, r8) \<Rightarrow> m | None \<Rightarrow> 0)\<rparr>
     }"

definition atom_record :: "string \<Rightarrow> moltype \<Rightarrow> moltype" where
  "atom_record line mt =
     (case scan_atom line of None \<Rightarrow> mt | Some a \<Rightarrow> mt\<lparr>atoms := atoms mt @ [a]\<rparr>)"

definition parse_atoms_section :: "string list \<Rightarrow> moltype \<Rightarrow> string list \<times> moltype" where
  "parse_atoms_section fp mt = section_loop atom_record fp mt"

definition scan_bond :: "string \<Rightarrow> bond_data option" where
  \<comment> \<open>\<^verbatim>\<open>sscanf(line, "%d %d", &ai, &aj) == 2\<close>\<close>
  "scan_bond line =
     do {
       (i, r1) \<leftarrow> scan_d line;
       (j, r2) \<leftarrow> scan_d r1;
       Some \<lparr>b_ai = i, b_aj = j\<rparr>
     }"

definition bond_record :: "string \<Rightarrow> moltype \<Rightarrow> moltype" where
  "bond_record line mt =
     (case scan_bond line of None \<Rightarrow> mt | Some b \<Rightarrow> mt\<lparr>bonds := bonds mt @ [b]\<rparr>)"

definition parse_bonds_section :: "string list \<Rightarrow> moltype \<Rightarrow> string list \<times> moltype" where
  "parse_bonds_section fp mt = section_loop bond_record fp mt"

definition parse_constraints_section :: "string list \<Rightarrow> moltype \<Rightarrow> string list \<times> moltype" where
  \<comment> \<open>a constraint is added as a bond\<close>
  "parse_constraints_section fp mt = section_loop bond_record fp mt"

definition scan_angle :: "string \<Rightarrow> angle_data option" where
  "scan_angle line =
     do {
       (i, r1) \<leftarrow> scan_d line;
       (j, r2) \<leftarrow> scan_d r1;
       (k, r3) \<leftarrow> scan_d r2;
       Some \<lparr>g_ai = i, g_aj = j, g_ak = k\<rparr>
     }"

definition angle_record :: "string \<Rightarrow> moltype \<Rightarrow> moltype" where
  "angle_record line mt =
     (case scan_angle line of None \<Rightarrow> mt | Some g \<Rightarrow> mt\<lparr>angles := angles mt @ [g]\<rparr>)"

definition parse_angles_section :: "string list \<Rightarrow> moltype \<Rightarrow> string list \<times> moltype" where
  "parse_angles_section fp mt = section_loop angle_record fp mt"

definition scan_dihedral :: "string \<Rightarrow> dihedral_data option" where
  \<comment> \<open>\<^verbatim>\<open>n = sscanf(line, "%d %d %d %d %d", ..)\<close> with \<^verbatim>\<open>n >= 4\<close>; \<^verbatim>\<open>funct\<close> is 0 unless \<^verbatim>\<open>n == 5\<close>\<close>
  "scan_dihedral line =
     do {
       (i, r1) \<leftarrow> scan_d line;
       (j, r2) \<leftarrow> scan_d r1;
       (k, r3) \<leftarrow> scan_d r2;
       (l, r4) \<leftarrow> scan_d r3;
       Some \<lparr>d_ai = i, d_aj = j, d_ak = k, d_al = l,
             funct = (case scan_d r4 of Some (f, r5) \<Rightarrow> f | None \<Rightarrow> 0)\<rparr>
     }"

definition dihedral_record :: "string \<Rightarrow> moltype \<Rightarrow> moltype" where
  "dihedral_record line mt =
     (case scan_dihedral line of None \<Rightarrow> mt | Some d \<Rightarrow> mt\<lparr>dihedrals := dihedrals mt @ [d]\<rparr>)"

definition parse_dihedrals_section :: "string list \<Rightarrow> moltype \<Rightarrow> string list \<times> moltype" where
  "parse_dihedrals_section fp mt = section_loop dihedral_record fp mt"

definition scan_molecule :: "string \<Rightarrow> (string \<times> int) option" where
  \<comment> \<open>\<^verbatim>\<open>sscanf(line, "%31s %d", molname, &count) == 2\<close>\<close>
  "scan_molecule line =
     do {
       (molname, r1) \<leftarrow> scan_s 31 line;
       (count, r2) \<leftarrow> scan_d r1;
       Some (molname, count)
     }"

definition molecule_record :: "string \<Rightarrow> grotop_data \<Rightarrow> grotop_data" where
  "molecule_record line data =
     (case scan_molecule line of
        None \<Rightarrow> data
      | Some (molname, count) \<Rightarrow>
          if length (molecules data) < MAX_MOLECULES
          then data\<lparr>molecules := molecules data @ [(take 31 molname, count)]\<rparr>
          else data)"

definition parse_molecules_section :: "string list \<Rightarrow> grotop_data \<Rightarrow> string list \<times> grotop_data" where
  "parse_molecules_section fp data = section_loop molecule_record fp data"

subsection \<open>Section dispatch\<close>

text \<open>
  \<^verbatim>\<open>current_mt\<close> points into \<^verbatim>\<open>data->moltypes\<close>: it is the index of the molecule type it points
  to, None for NULL. A record parser that is given \<^verbatim>\<open>*current_mt\<close> updates that element.
\<close>

definition on_current_mt ::
  "(string list \<Rightarrow> moltype \<Rightarrow> string list \<times> moltype) \<Rightarrow> string list \<Rightarrow> grotop_data \<Rightarrow> nat
     \<Rightarrow> (string list \<times> grotop_data \<times> nat option) option" where
  "on_current_mt parser fp data i =
     (let (fp', mt') = parser fp (moltypes data ! i)
      in Some (fp', data\<lparr>moltypes := (moltypes data)[i := mt']\<rparr>, Some i))"

definition skipped_section :: "string \<Rightarrow> bool" where
  "skipped_section section \<longleftrightarrow> section = ''system'' \<or> section = ''defaults''
     \<or> section = ''pairs'' \<or> section = ''exclusions'' \<or> section = ''settles''
     \<or> section = ''position_restraints''"

definition process_section ::
  "string list \<Rightarrow> string \<Rightarrow> grotop_data \<Rightarrow> nat option
     \<Rightarrow> (string list \<times> grotop_data \<times> nat option) option" where
  \<comment> \<open>Some (fp', data', current_mt') for return value 1, None for 0\<close>
  "process_section fp section data current_mt =
     (if section = ''atomtypes'' then
        (let (fp', data') = parse_atomtypes_section fp data in Some (fp', data', current_mt))
      else if section = ''moleculetype'' then
        (case parse_moleculetype_header fp create_moltype of
           None \<Rightarrow> None
         | Some (fp', mt) \<Rightarrow>
             if length (moltypes data) < MAX_MOLTYPES
             then Some (fp', data\<lparr>moltypes := moltypes data @ [mt]\<rparr>,
                        Some (length (moltypes data)))
             else None)
      else if section = ''atoms'' \<and> current_mt \<noteq> None then
        on_current_mt parse_atoms_section fp data (the current_mt)
      else if section = ''bonds'' \<and> current_mt \<noteq> None then
        on_current_mt parse_bonds_section fp data (the current_mt)
      else if section = ''constraints'' \<and> current_mt \<noteq> None then
        on_current_mt parse_constraints_section fp data (the current_mt)
      else if section = ''angles'' \<and> current_mt \<noteq> None then
        on_current_mt parse_angles_section fp data (the current_mt)
      else if section = ''dihedrals'' \<and> current_mt \<noteq> None then
        on_current_mt parse_dihedrals_section fp data (the current_mt)
      else if section = ''molecules'' then
        (let (fp', data') = parse_molecules_section fp data in Some (fp', data', current_mt))
      else if skipped_section section then
        (let (fp', u) = section_loop (\<lambda>line u. u) fp () in Some (fp', data, current_mt))
      else Some (fp, data, current_mt))"

definition reenter_section ::
  "string list \<Rightarrow> string \<Rightarrow> grotop_data \<Rightarrow> nat option
     \<Rightarrow> (string list \<times> grotop_data \<times> nat option) option" where
  \<comment> \<open>\<^verbatim>\<open>if (strlen(current_section) > 0) { if (!process_section(..)) return 0; }\<close>, the
      statement after each of the four directives\<close>
  "reenter_section fp current_section data current_mt =
     (if length current_section > 0 then process_section fp current_section data current_mt
      else Some (fp, data, current_mt))"

lemma section_loop_length: "length (fst (section_loop f fp st)) \<le> length fp"
  by (induction fp arbitrary: st) (auto simp: le_SucI)

lemma parse_moleculetype_header_length:
  "parse_moleculetype_header fp mt = Some (fp', mt') \<Longrightarrow> length fp' \<le> length fp"
  by (induction fp arbitrary: mt) (auto split: if_splits option.splits simp: le_SucI)

lemma section_loop_length_dest:
  "section_loop f fp st = (fp', st') \<Longrightarrow> length fp' \<le> length fp"
  using section_loop_length [of f fp st] by simp

lemma process_section_length:
  assumes "process_section fp s data cur = Some (fp', data', cur')"
  shows "length fp' \<le> length fp"
  using assms
  unfolding process_section_def on_current_mt_def parse_atomtypes_section_def
    parse_atoms_section_def parse_bonds_section_def parse_constraints_section_def
    parse_angles_section_def parse_dihedrals_section_def parse_molecules_section_def
  by (auto split: if_splits option.splits prod.splits
      dest: section_loop_length_dest parse_moleculetype_header_length)

lemma reenter_section_length:
  "reenter_section fp s data cur = Some (fp', data', cur') \<Longrightarrow> length fp' \<le> length fp"
  unfolding reenter_section_def by (auto split: if_splits dest: process_section_length)

subsection \<open>The parser and its preprocessor\<close>

text \<open>
  The file system maps a path to the records of the file, None when \<^verbatim>\<open>fopen\<close> fails.
  \<open>parse_lines\<close> is the \<^verbatim>\<open>while (fgets(..))\<close> loop of \<^verbatim>\<open>parse_topology_file\<close> with its local
  variables: the rest of the file, \<^verbatim>\<open>current_section\<close>, \<^verbatim>\<open>current_mt\<close> and the conditional stack
  \<^verbatim>\<open>ifdef_stack[0 .. ifdef_depth - 1]\<close> (innermost frame last). None is return value 0.
\<close>

type_synonym filesystem = "string \<Rightarrow> string list option"

function parse_topology_file :: "filesystem \<Rightarrow> string \<Rightarrow> grotop_data \<Rightarrow> nat \<Rightarrow> grotop_data option"
  and parse_lines :: "filesystem \<Rightarrow> string \<Rightarrow> nat \<Rightarrow> string list \<Rightarrow> string \<Rightarrow> nat option
      \<Rightarrow> bool list \<Rightarrow> grotop_data \<Rightarrow> grotop_data option"
where
  "parse_topology_file fs filepath data depth =
     (if depth > MAX_INCLUDES then None
      else (case fs filepath of
              None \<Rightarrow> None
            | Some fp \<Rightarrow> parse_lines fs filepath depth fp [] None [] data))"
| "parse_lines fs filepath depth [] current_section current_mt ifdef_stack data = Some data"
| "parse_lines fs filepath depth (line # fp) current_section current_mt ifdef_stack data =
     (case parse_define line data of
        Some data1 \<Rightarrow>
          (case reenter_section fp current_section data1 current_mt of
             None \<Rightarrow> None
           | Some (fp', data', current_mt') \<Rightarrow>
               parse_lines fs filepath depth fp' current_section current_mt' ifdef_stack data')
      | None \<Rightarrow>
          (case parse_ifdef line of
             Some (symbol, is_ifndef) \<Rightarrow>
               (if length ifdef_stack \<ge> MAX_IFDEF_DEPTH then None
                else (case reenter_section fp current_section data current_mt of
                        None \<Rightarrow> None
                      | Some (fp', data', current_mt') \<Rightarrow>
                          parse_lines fs filepath depth fp' current_section current_mt'
                            (ifdef_stack @ [if is_ifndef then \<not> is_defined data symbol
                                            else is_defined data symbol])
                            data'))
           | None \<Rightarrow>
               (if is_else_directive line then
                  (if ifdef_stack = [] then None
                   else (case reenter_section fp current_section data current_mt of
                           None \<Rightarrow> None
                         | Some (fp', data', current_mt') \<Rightarrow>
                             parse_lines fs filepath depth fp' current_section current_mt'
                               (butlast ifdef_stack @ [\<not> last ifdef_stack]) data'))
                else if is_endif_directive line then
                  (if ifdef_stack = [] then None
                   else (case reenter_section fp current_section data current_mt of
                           None \<Rightarrow> None
                         | Some (fp', data', current_mt') \<Rightarrow>
                             parse_lines fs filepath depth fp' current_section current_mt'
                               (butlast ifdef_stack) data'))
                else if \<not> list_all (\<lambda>b. b) ifdef_stack then
                  parse_lines fs filepath depth fp current_section current_mt ifdef_stack data
                else (case parse_include line filepath of
                        Some include_path \<Rightarrow>
                          (case parse_topology_file fs include_path data (depth + 1) of
                             None \<Rightarrow> None
                           | Some data' \<Rightarrow>
                               parse_lines fs filepath depth fp current_section current_mt
                                 ifdef_stack data')
                      | None \<Rightarrow>
                          (if strip_comments line = [] then
                             parse_lines fs filepath depth fp current_section current_mt
                               ifdef_stack data
                           else (case is_section_header (strip_comments line) of
                                   Some section \<Rightarrow>
                                     (case process_section fp section data current_mt of
                                        None \<Rightarrow> None
                                      | Some (fp', data', current_mt') \<Rightarrow>
                                          parse_lines fs filepath depth fp' (take 63 section)
                                            current_mt' ifdef_stack data')
                                 | None \<Rightarrow>
                                     parse_lines fs filepath depth fp current_section current_mt
                                       ifdef_stack data))))))"
  by pat_completeness auto
termination
proof (relation "measures
    [\<lambda>x. case x of Inl (fs, filepath, data, depth) \<Rightarrow> 2 * (102 - depth)
              | Inr (fs, filepath, depth, rest) \<Rightarrow> 2 * (102 - (depth + 1)) + 1,
     \<lambda>x. case x of Inl a \<Rightarrow> 0 | Inr (fs, filepath, depth, fp, rest) \<Rightarrow> length fp]",
    goal_cases)
  case 1
  show ?case by simp
qed (auto simp: MAX_INCLUDES_def less_Suc_eq_le
     intro: reenter_section_length process_section_length)

subsection \<open>Opening a topology\<close>

text \<open>
  The totals are C \<^verbatim>\<open>int\<close> variables: \<^verbatim>\<open>total += mt->natoms * data->molcounts[i]\<close> is a
  product and a sum of 32 bits each.
\<close>

fun total_atoms_loop :: "grotop_data \<Rightarrow> (string \<times> int) list \<Rightarrow> int \<Rightarrow> int" where
  "total_atoms_loop data [] tot = tot"
| "total_atoms_loop data ((molname, count) # rest) tot =
     (case find_moltype data molname of
        None \<Rightarrow> - 1
      | Some mt \<Rightarrow>
          total_atoms_loop data rest (int32 (tot + int32 (int (length (atoms mt)) * count))))"

definition calculate_total_atoms :: "grotop_data \<Rightarrow> int" where
  "calculate_total_atoms data = total_atoms_loop data (molecules data) 0"

definition calculate_total :: "(moltype \<Rightarrow> int) \<Rightarrow> grotop_data \<Rightarrow> int" where
  \<comment> \<open>the loop of \<^verbatim>\<open>calculate_total_bonds\<close>, \<^verbatim>\<open>_angles\<close> and \<^verbatim>\<open>_dihedrals\<close> for the counter n\<close>
  "calculate_total n data =
     foldl (\<lambda>tot (molname, count).
              case find_moltype data molname of
                None \<Rightarrow> tot
              | Some mt \<Rightarrow> int32 (tot + int32 (n mt * count)))
       0 (molecules data)"

definition calculate_total_bonds :: "grotop_data \<Rightarrow> int" where
  "calculate_total_bonds = calculate_total (\<lambda>mt. int (length (bonds mt)))"

definition calculate_total_angles :: "grotop_data \<Rightarrow> int" where
  "calculate_total_angles = calculate_total (\<lambda>mt. int (length (angles mt)))"

definition calculate_total_dihedrals :: "grotop_data \<Rightarrow> int" where
  "calculate_total_dihedrals = calculate_total (\<lambda>mt. int (length (dihedrals mt)))"

definition is_improper :: "dihedral_data \<Rightarrow> bool" where
  \<comment> \<open>\<^verbatim>\<open>funct == 2 || funct == 4\<close>\<close>
  "is_improper d \<longleftrightarrow> funct d = 2 \<or> funct d = 4"

definition calculate_total_impropers :: "grotop_data \<Rightarrow> int" where
  "calculate_total_impropers data =
     foldl (\<lambda>tot (molname, count).
              case find_moltype data molname of
                None \<Rightarrow> tot
              | Some mt \<Rightarrow>
                  foldl (\<lambda>t d. if is_improper d then int32 (t + count) else t) tot
                    (dihedrals mt))
       0 (molecules data)"

definition open_totals :: "grotop_data \<Rightarrow> grotop_data option" where
  \<comment> \<open>\<^verbatim>\<open>open_grotop_read\<close> after the parse: the totals; None for the NULL handle\<close>
  "open_totals data =
     (if calculate_total_atoms data < 0 then None
      else Some (data\<lparr>total_atoms := calculate_total_atoms data,
                       total_bonds := calculate_total_bonds data,
                       total_angles := calculate_total_angles data,
                       total_dihedrals := calculate_total_dihedrals data,
                       total_impropers := calculate_total_impropers data\<rparr>))"

definition open_grotop_read :: "filesystem \<Rightarrow> string \<Rightarrow> grotop_data option" where
  \<comment> \<open>the handle, None for NULL; \<^verbatim>\<open>*natoms\<close> is \<open>total_atoms\<close> of the handle\<close>
  "open_grotop_read fs filepath =
     (case parse_topology_file fs filepath calloc_grotop_data 0 of
        None \<Rightarrow> None
      | Some data \<Rightarrow> open_totals data)"

subsection \<open>The instantiator\<close>

text \<open>
  Modelled from the spec: \<^verbatim>\<open>molfile_atom_t\<close> and the widths of its string fields, declared in
  \<^verbatim>\<open>molfile_plugin.h\<close>, which is not among the sources. The spec lists the fields and copies the
  strings whole (\<open>name=a.atom_name, type=a.atom_type, resname=a.residue, segid, chain=""\<close>).
\<close>

record molfile_atom =
  m_name :: string
  m_type :: string
  m_resname :: string
  m_resid :: int
  m_segid :: string
  m_chain :: string
  m_charge :: cfloat
  m_mass :: cfloat

definition make_segid :: "string \<Rightarrow> string" where
  \<comment> \<open>\<^verbatim>\<open>snprintf(segid, sizeof(segid), "%.4s", mt->name)\<close>, then \<^verbatim>\<open>toupper\<close> on each character\<close>
  "make_segid name = map toupper (take 4 name)"

definition resid_range :: "moltype \<Rightarrow> int \<times> int" where
  \<comment> \<open>\<^verbatim>\<open>(min_resid, max_resid)\<close> after the loop over the atoms\<close>
  "resid_range mt =
     (let r0 = (if length (atoms mt) > 0 then resnr (hd (atoms mt)) else 1) in
      foldl (\<lambda>(min_resid, max_resid) a.
               (if resnr a < min_resid then resnr a else min_resid,
                if resnr a > max_resid then resnr a else max_resid))
        (r0, r0) (atoms mt))"

definition copy_atom :: "grotop_data \<Rightarrow> string \<Rightarrow> int \<Rightarrow> atom_data \<Rightarrow> molfile_atom" where
  "copy_atom data segid resid_offset src =
     \<lparr>m_name = atom_name src, m_type = atom_type src, m_resname = residue src,
      m_resid = resnr src + resid_offset, m_segid = segid, m_chain = [],
      m_charge = charge src,
      m_mass = (if mass src > 0 then mass src else find_atomtype_mass data (atom_type src))\<rparr>"

definition structure_copy ::
  "grotop_data \<Rightarrow> moltype \<Rightarrow> molfile_atom list \<times> int \<Rightarrow> molfile_atom list \<times> int" where
  \<comment> \<open>one round of \<^verbatim>\<open>for (copy ..)\<close>; the state is the part of \<^verbatim>\<open>atoms[]\<close> written so far
      (\<^verbatim>\<open>global_atom_idx\<close> is its length) and \<^verbatim>\<open>residue_offset\<close>\<close>
  "structure_copy data mt st =
     (let (out, residue_offset) = st;
          (min_resid, max_resid) = resid_range mt;
          num_residues = max_resid - min_resid + 1;
          resid_offset = residue_offset - min_resid + 1
      in (out @ map (copy_atom data (make_segid (mt_name mt)) resid_offset) (atoms mt),
          residue_offset + num_residues))"

definition read_grotop_structure :: "grotop_data \<Rightarrow> molfile_atom list" where
  \<comment> \<open>the atoms written to the caller's array, which is taken to be large enough\<close>
  "read_grotop_structure data =
     fst (foldl (\<lambda>st (molname, count).
                   case find_moltype data molname of
                     None \<Rightarrow> st
                   | Some mt \<Rightarrow> (structure_copy data mt ^^ nat count) st)
            ([], 0) (molecules data))"

text \<open>
  The loops of \<^verbatim>\<open>read_grotop_bonds\<close> and \<^verbatim>\<open>read_grotop_angles\<close> have one shape: over the roster,
  over the copies, over the records of the molecule type, with \<^verbatim>\<open>global_atom_offset\<close> advanced
  by \<^verbatim>\<open>mt->natoms\<close> after each copy. \<open>emit mt offset\<close> is what one copy appends.
\<close>

definition connectivity_copy ::
  "(moltype \<Rightarrow> int \<Rightarrow> 'a list) \<Rightarrow> moltype \<Rightarrow> 'a list \<times> int \<Rightarrow> 'a list \<times> int" where
  "connectivity_copy emit mt st =
     (let (out, global_atom_offset) = st
      in (out @ emit mt global_atom_offset, global_atom_offset + int (length (atoms mt))))"

definition connectivity_loop :: "(moltype \<Rightarrow> int \<Rightarrow> 'a list) \<Rightarrow> grotop_data \<Rightarrow> 'a list" where
  "connectivity_loop emit data =
     fst (foldl (\<lambda>st (molname, count).
                   case find_moltype data molname of
                     None \<Rightarrow> st
                   | Some mt \<Rightarrow> (connectivity_copy emit mt ^^ nat count) st)
            ([], 0) (molecules data))"

definition emit_bonds :: "moltype \<Rightarrow> int \<Rightarrow> (int \<times> int) list" where
  "emit_bonds mt offset = map (\<lambda>b. (offset + b_ai b, offset + b_aj b)) (bonds mt)"

definition emit_angles :: "moltype \<Rightarrow> int \<Rightarrow> (int \<times> int \<times> int) list" where
  "emit_angles mt offset =
     map (\<lambda>g. (offset + g_ai g, offset + g_aj g, offset + g_ak g)) (angles mt)"

definition emit_quad :: "int \<Rightarrow> dihedral_data \<Rightarrow> int \<times> int \<times> int \<times> int" where
  "emit_quad offset d = (offset + d_ai d, offset + d_aj d, offset + d_ak d, offset + d_al d)"

definition emit_dihedrals :: "moltype \<Rightarrow> int \<Rightarrow> (int \<times> int \<times> int \<times> int) list" where
  \<comment> \<open>\<^verbatim>\<open>if (funct == 2 || funct == 4) continue;\<close>\<close>
  "emit_dihedrals mt offset =
     map (emit_quad offset) (filter (\<lambda>d. \<not> is_improper d) (dihedrals mt))"

definition emit_impropers :: "moltype \<Rightarrow> int \<Rightarrow> (int \<times> int \<times> int \<times> int) list" where
  \<comment> \<open>\<^verbatim>\<open>if (funct != 2 && funct != 4) continue;\<close>\<close>
  "emit_impropers mt offset = map (emit_quad offset) (filter is_improper (dihedrals mt))"

text \<open>
  The output arrays are allocated for the totals computed by \<^verbatim>\<open>open_grotop_read\<close>. The size
  passed to \<^verbatim>\<open>malloc\<close> is a \<^verbatim>\<open>size_t\<close>: a negative \<^verbatim>\<open>int\<close> becomes a size that no allocation
  satisfies (\<open>Alloc_failed\<close>, the function returns \<^verbatim>\<open>MOLFILE_ERROR\<close>). In
  \<^verbatim>\<open>total * 3 * sizeof(int)\<close> the first product is one of two \<^verbatim>\<open>int\<close>s. More entries than
  were allocated are written past the end of the array, which is undefined in C
  (\<open>Out_of_bounds\<close>).
\<close>

datatype read_error = Alloc_failed | Out_of_bounds

definition read_grotop_bonds :: "grotop_data \<Rightarrow> read_error + int \<times> int list \<times> int list" where
  \<comment> \<open>\<^verbatim>\<open>(*nbonds, *fromptr, *toptr)\<close>; the empty list for a NULL array\<close>
  "read_grotop_bonds data =
     (if total_bonds data = 0 then Inr (0, [], [])
      else if total_bonds data < 0 then Inl Alloc_failed
      else let out = connectivity_loop emit_bonds data in
        if int (length out) > total_bonds data then Inl Out_of_bounds
        else Inr (total_bonds data, map fst out, map snd out))"

record angles_result =
  numangles :: int
  angles_out :: "(int \<times> int \<times> int) list"
  numdihedrals :: int
  dihedrals_out :: "(int \<times> int \<times> int \<times> int) list"
  numimpropers :: int
  impropers_out :: "(int \<times> int \<times> int \<times> int) list"

definition fill_table ::
  "int \<Rightarrow> int \<Rightarrow> (moltype \<Rightarrow> int \<Rightarrow> 'a list) \<Rightarrow> grotop_data \<Rightarrow> read_error + 'a list" where
  \<comment> \<open>one table of \<^verbatim>\<open>read_grotop_angles\<close>, of \<open>width\<close> ints per entry: left NULL unless the total
      is positive, else \<^verbatim>\<open>malloc(total * width * sizeof(int))\<close> and the loops\<close>
  "fill_table tot width emit data =
     (if tot > 0 then
        (if int32 (tot * width) < 0 then Inl Alloc_failed
         else if width * int (length (connectivity_loop emit data)) > int32 (tot * width)
           then Inl Out_of_bounds
         else Inr (connectivity_loop emit data))
      else Inr [])"

definition read_grotop_angles :: "grotop_data \<Rightarrow> read_error + angles_result" where
  \<comment> \<open>an array of 3 (4) ints per entry is a list of triples (quadruples);
      \<^verbatim>\<open>*numangles = data->total_angles\<close>, \<^verbatim>\<open>*numdihedrals = dihedral_idx\<close>,
      \<^verbatim>\<open>*numimpropers = improper_idx\<close>\<close>
  "read_grotop_angles data =
     (case fill_table (total_angles data) 3 emit_angles data of
        Inl e \<Rightarrow> Inl e
      | Inr ang \<Rightarrow>
          (case fill_table (total_dihedrals data) 4 emit_dihedrals data of
             Inl e \<Rightarrow> Inl e
           | Inr dih \<Rightarrow>
               (case fill_table (total_impropers data) 4 emit_impropers data of
                  Inl e \<Rightarrow> Inl e
                | Inr imp \<Rightarrow>
                    Inr \<lparr>numangles = (if total_angles data > 0 then total_angles data else 0),
                         angles_out = ang,
                         numdihedrals = int (length dih), dihedrals_out = dih,
                         numimpropers = int (length imp), impropers_out = imp\<rparr>)))"

subsection \<open>The layout the instantiator is specified by\<close>

text \<open>
  The emitted copies in the order of the contract: the roster entries in order, each resolved
  molecule type as many times as its count says (none for a count that is not positive).
  \<open>atoms_before\<close> is the number of global atoms laid out before copy \<open>k\<close>, \<open>resid_base\<close> the
  number of residues numbered before it.
\<close>

definition instances :: "grotop_data \<Rightarrow> moltype list" where
  "instances data =
     concat (map (\<lambda>(molname, count).
                    case find_moltype data molname of
                      None \<Rightarrow> []
                    | Some mt \<Rightarrow> replicate (nat count) mt)
               (molecules data))"

definition atoms_before :: "grotop_data \<Rightarrow> nat \<Rightarrow> int" where
  "atoms_before data k = (\<Sum>mt\<leftarrow>take k (instances data). int (length (atoms mt)))"

definition min_r :: "moltype \<Rightarrow> int" where
  "min_r mt = Min (resnr ` set (atoms mt))"

definition max_r :: "moltype \<Rightarrow> int" where
  "max_r mt = Max (resnr ` set (atoms mt))"

definition nres :: "moltype \<Rightarrow> int" where
  "nres mt = (if atoms mt = [] then 1 else max_r mt - min_r mt + 1)"

definition resid_base :: "grotop_data \<Rightarrow> nat \<Rightarrow> int" where
  "resid_base data k = (\<Sum>mt\<leftarrow>take k (instances data). nres mt)"

definition record_count :: "(moltype \<Rightarrow> 'a list) \<Rightarrow> grotop_data \<Rightarrow> int" where
  \<comment> \<open>the number of records of one table of the molecule types, over all emitted copies\<close>
  "record_count f data = (\<Sum>mt\<leftarrow>instances data. int (length (f mt)))"

definition table_mass :: "grotop_data \<Rightarrow> string \<Rightarrow> cfloat option" where
  "table_mass data = map_of (map (\<lambda>t. (at_name t, at_mass t)) (atomtypes data))"


definition dihedral_instances :: "grotop_data \<Rightarrow> (int \<times> dihedral_data) list" where
  "dihedral_instances data =
     concat (map (\<lambda>k. map (\<lambda>d. (atoms_before data k, d)) (dihedrals (instances data ! k)))
               [0..<length (instances data)])"

definition global_quad :: "int \<times> dihedral_data \<Rightarrow> int \<times> int \<times> int \<times> int" where
  "global_quad x = (case x of (offset, d) \<Rightarrow>
     (d_ai d + offset, d_aj d + offset, d_ak d + offset, d_al d + offset))"

fun emit_from :: "grotop_data \<Rightarrow> int \<Rightarrow> moltype list \<Rightarrow> molfile_atom list" where
  "emit_from data r [] = []"
| "emit_from data r (mt # ms) =
     map (copy_atom data (make_segid (mt_name mt)) (r - fst (resid_range mt) + 1)) (atoms mt)
     @ emit_from data (r + (snd (resid_range mt) - fst (resid_range mt) + 1)) ms"


subsection \<open>The tokens of a record line\<close>

text \<open>
  The white-space separated tokens of a line, which the spec's record formats are written in,
  and the choice of the mass field of an \<^verbatim>\<open>[ atomtypes ]\<close> record in the words of the spec:
  the second token if it scans as a float, else the fourth if there are four and it scans.
\<close>

definition ws_start :: "string \<Rightarrow> bool" where
  "ws_start q \<longleftrightarrow> (case q of [] \<Rightarrow> True | c # r \<Rightarrow> isspace c)"

lemma hd_skip_ws: "skip_ws s = c # r \<Longrightarrow> \<not> isspace c"
  unfolding skip_ws_def using hd_dropWhile [of isspace s] by (metis list.sel(1) list.distinct(1))

lemma length_rest_less:
  "skip_ws s \<noteq> [] \<Longrightarrow> length (dropWhile (\<lambda>c. \<not> isspace c) (skip_ws s)) < length s"
proof -
  assume a: "skip_ws s \<noteq> []"
  then obtain c r where cr: "skip_ws s = c # r" by (cases "skip_ws s") auto
  then have "\<not> isspace c" by (rule hd_skip_ws)
  then have "length (dropWhile (\<lambda>c. \<not> isspace c) (skip_ws s)) \<le> length r"
    by (simp add: cr length_dropWhile_le)
  also have "length r < length (skip_ws s)" by (simp add: cr)
  also have "\<dots> \<le> length s" by (simp add: skip_ws_def length_dropWhile_le)
  finally show ?thesis .
qed

function tokens :: "string \<Rightarrow> string list" where
  "tokens s = (if skip_ws s = [] then []
               else token (skip_ws s) # tokens (dropWhile (\<lambda>c. \<not> isspace c) (skip_ws s)))"
  by pat_completeness auto
termination
  by (relation "measure length") (auto simp: length_rest_less)

declare tokens.simps [simp del]

definition mass_field :: "string list \<Rightarrow> cfloat option" where
  "mass_field toks =
     (if length toks \<ge> 2 \<and> scan_f (toks ! 1) \<noteq> None then map_option fst (scan_f (toks ! 1))
      else if length toks \<ge> 4 \<and> scan_f (toks ! 3) \<noteq> None then map_option fst (scan_f (toks ! 3))
      else None)"

subsection \<open>Example topologies\<close>

text \<open>
  \<open>text_file\<close> gives the records \<^verbatim>\<open>fgets\<close> returns for a text file with the given lines, each
  ended by a newline.
\<close>

definition text_file :: "string list \<Rightarrow> string list" where
  "text_file ls = map (\<lambda>l. l @ [CHR 0x0A]) ls"


definition backfill_top :: filesystem where
  "backfill_top = (\<lambda>path. if path = ''backfill.top'' then Some (text_file [
     ''[ atomtypes ]'',
     ''CT 12.011'',
     ''[ moleculetype ]'',
     ''MOL 1'',
     ''[ atoms ]'',
     ''1 CT 1 MOL C1 1 0.0'',
     ''[ molecules ]'',
     ''MOL 1'']) else None)"

definition improper_top :: filesystem where
  "improper_top = (\<lambda>path. if path = ''improper.top'' then Some (text_file [
     ''[ moleculetype ]'',
     ''DIH 3'',
     ''[ atoms ]'',
     ''1 C 1 RES C1 1 0.0 12.0'',
     ''2 C 1 RES C2 1 0.0 12.0'',
     ''3 C 1 RES C3 1 0.0 12.0'',
     ''4 C 1 RES C4 1 0.0 12.0'',
     ''[ dihedrals ]'',
     ''1 2 3 4 1'',
     ''1 2 3 4 2'',
     ''4 3 2 1 4'',
     ''2 3 4 1 9'',
     ''1 3 2 4'',
     ''[ molecules ]'',
     ''DIH 2'']) else None)"

definition negative_count_top :: filesystem where
  "negative_count_top = (\<lambda>path. if path = ''negative.top'' then Some (text_file [
     ''[ moleculetype ]'',
     ''A 1'',
     ''[ atoms ]'',
     ''1 C 1 RES C1 1 0.0 12.0'',
     ''2 C 1 RES C2 1 0.0 12.0'',
     ''3 C 1 RES C3 1 0.0 12.0'',
     ''4 C 1 RES C4 1 0.0 12.0'',
     ''[ bonds ]'',
     ''1 2'',
     ''[ dihedrals ]'',
     ''1 2 3 4 1'',
     ''[ molecules ]'',
     ''A 1'',
     ''A -1'']) else None)"

definition overflow_top :: filesystem where
  "overflow_top = (\<lambda>path. if path = ''overflow.top'' then Some (text_file [
     ''[ moleculetype ]'',
     ''A 1'',
     ''[ atoms ]'',
     ''1 C 1 RES C1 1 0.0 12.0'',
     ''2 C 1 RES C2 1 0.0 12.0'',
     ''3 C 1 RES C3 1 0.0 12.0'',
     ''4 C 1 RES C4 1 0.0 12.0'',
     ''[ bonds ]'',
     ''1 2'',
     ''2 3'',
     ''3 4'',
     ''1 4'',
     ''[ dihedrals ]'',
     ''1 2 3 4 1'',
     ''4 3 2 1 1'',
     ''2 3 4 1 1'',
     ''3 4 1 2 1'',
     ''[ molecules ]'',
     ''A 1073741824'']) else None)"

definition angle_overflow_top :: filesystem where
  "angle_overflow_top = (\<lambda>path. if path = ''angles.top'' then Some (text_file [
     ''[ moleculetype ]'',
     ''A 1'',
     ''[ atoms ]'',
     ''1 C 1 RES C1 1 0.0 12.0'',
     ''[ angles ]'',
     ''1 1 1'',
     ''[ molecules ]'',
     ''A 1073741824'']) else None)"

definition dihedral_overflow_top :: filesystem where
  "dihedral_overflow_top = (\<lambda>path. if path = ''dihedrals.top'' then Some (text_file [
     ''[ moleculetype ]'',
     ''A 1'',
     ''[ atoms ]'',
     ''1 C 1 RES C1 1 0.0 12.0'',
     ''[ dihedrals ]'',
     ''1 1 1 1 1'',
     ''[ molecules ]'',
     ''A 536870912'']) else None)"

definition unknown_moltype_top :: filesystem where
  "unknown_moltype_top = (\<lambda>path. if path = ''unknown.top'' then Some (text_file [
     ''[ moleculetype ]'',
     ''A 1'',
     ''[ atoms ]'',
     ''1 C 1 RES C1 1 0.0 12.0'',
     ''[ molecules ]'',
     ''A 1'',
     ''B 1'']) else None)"

definition zero_count_top :: filesystem where
  "zero_count_top = (\<lambda>path. if path = ''zero.top'' then Some (text_file [
     ''[ moleculetype ]'',
     ''A 1'',
     ''[ atoms ]'',
     ''1 C 1 RES C1 1 0.0 12.0'',
     ''2 C 1 RES C2 1 0.0 12.0'',
     ''[ bonds ]'',
     ''1 2'',
     ''[ molecules ]'',
     ''A 1'',
     ''A 0'',
     ''A 1'']) else None)"

definition zero_count_removed_top :: filesystem where
  "zero_count_removed_top = (\<lambda>path. if path = ''removed.top'' then Some (text_file [
     ''[ moleculetype ]'',
     ''A 1'',
     ''[ atoms ]'',
     ''1 C 1 RES C1 1 0.0 12.0'',
     ''2 C 1 RES C2 1 0.0 12.0'',
     ''[ bonds ]'',
     ''1 2'',
     ''[ molecules ]'',
     ''A 1'',
     ''A 1'']) else None)"



definition inactive_bond_top :: filesystem where
  "inactive_bond_top = (\<lambda>path. if path = ''inactive.top'' then Some (text_file [
     ''[ moleculetype ]'',
     ''M 1'',
     ''[ atoms ]'',
     ''1 C 1 RES C1 1 0.0 12.0'',
     ''2 C 1 RES C2 1 0.0 12.0'',
     ''[ bonds ]'',
     ''#ifdef X'',
     ''1 2'',
     ''#endif'',
     ''[ molecules ]'',
     ''M 1'']) else None)"

definition guarded_atoms :: "string list" where
  "guarded_atoms = text_file [
     ''#define X'',
     ''[ moleculetype ]'',
     ''M 1'',
     ''#ifdef X'',
     ''[ atoms ]'',
     ''1 C 1 RES C1 1 0.0 12.0'',
     ''#endif'',
     ''[ molecules ]'',
     ''M 1'']"

definition one_file :: "string \<Rightarrow> string list \<Rightarrow> filesystem" where
  "one_file name records = (\<lambda>path. if path = name then Some records else None)"

definition many_moltypes :: "nat \<Rightarrow> string list" where
  "many_moltypes n = concat (replicate n (text_file [''[ moleculetype ]'', ''M 1'']))"

definition moltype_M :: moltype where
  "moltype_M = \<lparr>mt_name = ''M'', nrexcl = 1, atoms = [], bonds = [], angles = [], dihedrals = []\<rparr>"

section \<open>Properties\<close>

subsection \<open>The loops of the instantiator\<close>

lemma funpow_foldl_replicate:
  "foldl (\<lambda>st mt. step mt st) st (replicate n mt) = (step mt ^^ n) st"
  by (induction n arbitrary: st) (simp_all add: funpow_swap1)

lemma roster_fold_instances:
  "foldl (\<lambda>st (molname, count).
            case find_moltype data molname of
              None \<Rightarrow> st
            | Some mt \<Rightarrow> (step mt ^^ nat count) st) st0 ms
   = foldl (\<lambda>st mt. step mt st) st0
       (concat (map (\<lambda>(molname, count).
                       case find_moltype data molname of
                         None \<Rightarrow> []
                       | Some mt \<Rightarrow> replicate (nat count) mt) ms))"
  by (induction ms arbitrary: st0)
     (auto simp: funpow_foldl_replicate split: option.splits)

lemma foldl_emit:
  assumes "\<And>mt out c. step mt (out, c) = (out @ e mt c, c + w mt)"
  shows "foldl (\<lambda>st mt. step mt st) ([], 0) insts
         = (concat (map (\<lambda>k. e (insts ! k) (sum_list (map w (take k insts)))) [0..<length insts]),
            sum_list (map w insts))"
proof (induction insts rule: rev_induct)
  case Nil
  show ?case by simp
next
  case (snoc x xs)
  let ?f = "\<lambda>ys k. e (ys ! k) (sum_list (map w (take k ys)))"
  have eq: "map (?f (xs @ [x])) [0..<length xs] = map (?f xs) [0..<length xs]"
    by (rule map_cong [OF refl]) (simp add: nth_append)
  have last: "?f (xs @ [x]) (length xs) = e x (sum_list (map w xs))"
    by simp
  have A: "map (?f (xs @ [x])) [0..<length (xs @ [x])]
        = map (?f xs) [0..<length xs] @ [e x (sum_list (map w xs))]"
    using eq last by (simp del: take_append nth_append_length)
  have B: "foldl (\<lambda>st mt. step mt st) ([], 0) (xs @ [x])
        = (concat (map (?f xs) [0..<length xs]) @ e x (sum_list (map w xs)),
           sum_list (map w xs) + w x)"
    using snoc by (simp add: assms)
  show ?case
    by (subst A, subst B) simp
qed

lemma connectivity_loop_instances:
  "connectivity_loop emit data
   = concat (map (\<lambda>k. emit (instances data ! k) (atoms_before data k))
               [0..<length (instances data)])"
proof -
  have step: "\<And>mt out c. connectivity_copy emit mt (out, c)
                = (out @ emit mt c, c + int (length (atoms mt)))"
    by (simp add: connectivity_copy_def)
  show ?thesis
    unfolding connectivity_loop_def roster_fold_instances
    by (simp add: foldl_emit [OF step] instances_def atoms_before_def)
qed

lemma Min_insert_insert:
  "finite S \<Longrightarrow> Min (insert (a::int) (insert b S)) = Min (insert (min a b) S)"
  by (cases "S = {}") (simp_all add: min.assoc)

lemma Max_insert_insert:
  "finite S \<Longrightarrow> Max (insert (a::int) (insert b S)) = Max (insert (max a b) S)"
  by (cases "S = {}") (simp_all add: max.assoc)

lemma min_max_foldl:
  "foldl (\<lambda>(mn, mx) a. (if resnr a < mn then resnr a else mn,
                         if resnr a > mx then resnr a else mx)) (m0, M0) as
   = (Min (insert m0 (resnr ` set as)), Max (insert M0 (resnr ` set as)))"
proof (induction as arbitrary: m0 M0)
  case Nil
  show ?case by simp
next
  case (Cons a as)
  have mn: "(if resnr a < m0 then resnr a else m0) = min m0 (resnr a)"
    by (simp add: min_def)
  have mx: "(if resnr a > M0 then resnr a else M0) = max M0 (resnr a)"
    by (simp add: max_def)
  show ?case
    by (simp add: Cons.IH mn mx Min_insert_insert Max_insert_insert del: Min_insert Max_insert)
qed

lemma resid_range_eq:
  "resid_range mt = (if atoms mt = [] then (1, 1) else (min_r mt, max_r mt))"
proof (cases "atoms mt")
  case Nil
  then show ?thesis by (simp add: resid_range_def)
next
  case (Cons a as)
  then have "insert (resnr a) (resnr ` set (atoms mt)) = resnr ` set (atoms mt)"
    by auto
  with Cons show ?thesis
    unfolding resid_range_def Let_def min_max_foldl min_r_def max_r_def
    by (simp add: insert_absorb)
qed

lemma read_grotop_structure_instances:
  "read_grotop_structure data
   = concat (map (\<lambda>k. map (copy_atom data (make_segid (mt_name (instances data ! k)))
                             (resid_base data k - fst (resid_range (instances data ! k)) + 1))
                        (atoms (instances data ! k)))
               [0..<length (instances data)])"
proof -
  have step: "\<And>mt out c. structure_copy data mt (out, c)
       = (out @ map (copy_atom data (make_segid (mt_name mt)) (c - fst (resid_range mt) + 1))
                   (atoms mt),
          c + nres mt)"
    by (simp add: structure_copy_def resid_range_eq nres_def split: prod.splits)
  show ?thesis
    unfolding read_grotop_structure_def roster_fold_instances
    by (simp add: foldl_emit [OF step] instances_def resid_base_def)
qed

lemma find_map_of:
  "(case List.find (\<lambda>t. at_name t = ty) ts of Some t \<Rightarrow> at_mass t | None \<Rightarrow> 0)
   = (case map_of (map (\<lambda>t. (at_name t, at_mass t)) ts) ty of Some m \<Rightarrow> m | None \<Rightarrow> 0)"
  by (induction ts) auto

lemma map_nth_upt: "map (\<lambda>k. f (xs ! k)) [0..<length xs] = map f xs"
proof -
  have "map f (map (\<lambda>k. xs ! k) [0..<length xs]) = map f xs"
    by (simp only: map_nth)
  then show ?thesis by (simp only: map_map comp_def)
qed

subsection \<open>Residue numbering and masses of the emitted atoms\<close>



text \<open>
  C5. The mass of every emitted atom is the mass of its atom record when that is positive;
  otherwise the mass that the atom-type table stores for the record's \<open>atom_type\<close> (the first
  entry of that name); otherwise, the type being absent from the table, 0. The witness is the
  mass back-fill scenario: an \<^verbatim>\<open>[ atoms ]\<close> line without a mass field, whose type has mass 12.011
  in \<^verbatim>\<open>[ atomtypes ]\<close>, is emitted with mass 12.011 (as a \<^verbatim>\<open>float\<close>, \<open>6297223 / 2^19\<close>).
\<close>

theorem emitted_mass:
  "map m_mass (read_grotop_structure data)
     = map (\<lambda>a. if mass a > 0 then mass a
                else (case table_mass data (atom_type a) of Some m \<Rightarrow> m | None \<Rightarrow> 0))
         (concat (map atoms (instances data)))"
proof -
  have inner: "\<And>seg off mt. map (\<lambda>a. m_mass (copy_atom data seg off a)) (atoms mt)
      = map (\<lambda>a. if mass a > 0 then mass a
                 else (case table_mass data (atom_type a) of Some m \<Rightarrow> m | None \<Rightarrow> 0))
          (atoms mt)"
    by (simp add: copy_atom_def find_atomtype_mass_def find_map_of table_mass_def)
  have "map m_mass (read_grotop_structure data)
      = concat (map (\<lambda>k. map (\<lambda>a. if mass a > 0 then mass a
                 else (case table_mass data (atom_type a) of Some m \<Rightarrow> m | None \<Rightarrow> 0))
          (atoms (instances data ! k))) [0..<length (instances data)])"
    unfolding read_grotop_structure_instances map_concat
    by (simp add: comp_def inner)
  also have "\<dots> = concat (map (\<lambda>mt. map (\<lambda>a. if mass a > 0 then mass a
                 else (case table_mass data (atom_type a) of Some m \<Rightarrow> m | None \<Rightarrow> 0))
          (atoms mt)) (instances data))"
    by (rule arg_cong [where f = concat]) (rule map_nth_upt)
  finally show ?thesis by (simp add: map_concat comp_def)
qed

theorem emitted_mass_witness:
  "map mass (concat (map atoms (instances (the (open_grotop_read backfill_top ''backfill.top'')))))
     = [0]
   \<and> table_mass (the (open_grotop_read backfill_top ''backfill.top'')) ''CT''
     = Some (float_of_rat (12011 / 1000))
   \<and> map m_mass (read_grotop_structure (the (open_grotop_read backfill_top ''backfill.top'')))
     = [float_of_rat (12011 / 1000)]
   \<and> float_of_rat (12011 / 1000) = Finite (6297223 / 524288)"
proof -
  let ?h = "the (open_grotop_read backfill_top ''backfill.top'')"
  have src: "concat (map atoms (instances ?h))
      = [\<lparr>ad_id = 1, atom_type = ''CT'', resnr = 1, residue = ''MOL'', atom_name = ''C1'',
          cgnr = 1, charge = 0, mass = 0\<rparr>]"
    by code_simp
  have tab: "table_mass ?h ''CT'' = Some (Finite (6297223 / 524288))"
    by code_simp
  have val: "float_of_rat (12011 / 1000) = Finite (6297223 / 524288)"
    by code_simp
  show ?thesis
    using emitted_mass [of ?h] by (simp add: src tab val zero_cfloat_def)
qed

lemma int32_add_left: "int32 (int32 a + b) = int32 (a + b)"
  by (simp add: int32_def mod_simps ac_simps)

lemma int32_add_right: "int32 (a + int32 b) = int32 (a + b)"
  by (simp add: int32_def mod_simps ac_simps)

lemma int32_range: "- 2147483648 \<le> int32 x" "int32 x < 2147483648"
  by (simp_all add: int32_def)

lemma int32_id: "- 2147483648 \<le> x \<Longrightarrow> x < 2147483648 \<Longrightarrow> int32 x = x"
  by (simp add: int32_def)

lemma calculate_total_foldl:
  "foldl (\<lambda>tot (molname, count).
            case find_moltype data molname of
              None \<Rightarrow> tot
            | Some mt \<Rightarrow> int32 (tot + int32 (n mt * count))) (int32 t0) ms
   = int32 (t0 + (\<Sum>(molname, count)\<leftarrow>ms.
                    case find_moltype data molname of
                      None \<Rightarrow> 0
                    | Some mt \<Rightarrow> n mt * count))"
proof (induction ms arbitrary: t0)
  case Nil
  show ?case by simp
next
  case (Cons e ms)
  obtain molname count where e: "e = (molname, count)" by (cases e)
  show ?case
  proof (cases "find_moltype data molname")
    case None
    then show ?thesis using Cons [of t0] by (simp add: e)
  next
    case (Some mt)
    then show ?thesis
      using Cons [of "t0 + n mt * count"]
      by (simp add: e int32_add_left int32_add_right add.assoc)
  qed
qed

lemma roster_sum_instances:
  "list_all (\<lambda>(molname, count). 0 \<le> count) ms \<Longrightarrow>
   (\<Sum>(molname, count)\<leftarrow>ms. case find_moltype data molname of
                                None \<Rightarrow> 0
                              | Some mt \<Rightarrow> n mt * count)
   = (\<Sum>mt\<leftarrow>concat (map (\<lambda>(molname, count).
                    case find_moltype data molname of
                      None \<Rightarrow> []
                    | Some mt \<Rightarrow> replicate (nat count) mt) ms). n mt)"
  by (induction ms) (auto simp: sum_list_replicate split: option.splits)

lemma calculate_total_sum:
  "calculate_total n data
   = int32 (\<Sum>(molname, count)\<leftarrow>molecules data.
              case find_moltype data molname of
                None \<Rightarrow> 0
              | Some mt \<Rightarrow> n mt * count)"
  unfolding calculate_total_def
  using calculate_total_foldl [where ?t0.0 = 0 and ms = "molecules data"]
  by (simp add: int32_def)

lemma calculate_total_instances:
  "list_all (\<lambda>(molname, count). 0 \<le> count) (molecules data) \<Longrightarrow>
   calculate_total n data = int32 (\<Sum>mt\<leftarrow>instances data. n mt)"
  unfolding calculate_total_sum instances_def by (simp add: roster_sum_instances)

lemma improper_count_foldl:
  "foldl (\<lambda>t d. if is_improper d then int32 (t + count) else t) (int32 t0) ds
   = int32 (t0 + int (length (filter is_improper ds)) * count)"
proof (induction ds arbitrary: t0)
  case Nil
  show ?case by simp
next
  case (Cons d ds)
  show ?case
  proof (cases "is_improper d")
    case True
    then show ?thesis
      using Cons [of "t0 + count"]
      by (simp add: int32_add_left int32_add_right algebra_simps)
  next
    case False
    then show ?thesis using Cons [of t0] by simp
  qed
qed

lemma calculate_total_impropers_foldl:
  "foldl (\<lambda>tot (molname, count).
            case find_moltype data molname of
              None \<Rightarrow> tot
            | Some mt \<Rightarrow>
                foldl (\<lambda>t d. if is_improper d then int32 (t + count) else t) tot
                  (dihedrals mt)) (int32 t0) ms
   = int32 (t0 + (\<Sum>(molname, count)\<leftarrow>ms.
                    case find_moltype data molname of
                      None \<Rightarrow> 0
                    | Some mt \<Rightarrow> int (length (filter is_improper (dihedrals mt))) * count))"
proof (induction ms arbitrary: t0)
  case Nil
  show ?case by simp
next
  case (Cons e ms)
  obtain molname count where e: "e = (molname, count)" by (cases e)
  show ?case
  proof (cases "find_moltype data molname")
    case None
    then show ?thesis using Cons [of t0] by (simp add: e)
  next
    case (Some mt)
    then show ?thesis
      using Cons [of "t0 + int (length (filter is_improper (dihedrals mt))) * count"]
      by (simp add: e improper_count_foldl add.assoc)
  qed
qed

lemma calculate_total_impropers_eq:
  "calculate_total_impropers data
   = calculate_total (\<lambda>mt. int (length (filter is_improper (dihedrals mt)))) data"
  unfolding calculate_total_impropers_def calculate_total_sum
  using calculate_total_impropers_foldl [where ?t0.0 = 0 and ms = "molecules data"]
  by (simp add: int32_def)

lemma int_sum_list: "int (sum_list ns) = sum_list (map int ns)"
  by (induction ns) simp_all

lemma length_connectivity_loop:
  assumes "\<And>mt off. int (length (emit mt off)) = n mt"
  shows "int (length (connectivity_loop emit data)) = (\<Sum>mt\<leftarrow>instances data. n mt)"
proof -
  have "int (length (connectivity_loop emit data))
      = (\<Sum>k\<leftarrow>[0..<length (instances data)]. n (instances data ! k))"
    unfolding connectivity_loop_instances length_concat int_sum_list
    by (simp add: comp_def assms)
  also have "\<dots> = (\<Sum>mt\<leftarrow>instances data. n mt)"
    by (rule arg_cong [where f = sum_list]) (rule map_nth_upt)
  finally show ?thesis .
qed

lemma open_totals_fields:
  assumes "open_totals data = Some h"
  shows "moltypes h = moltypes data" "atomtypes h = atomtypes data"
    "molecules h = molecules data"
    "total_atoms h = calculate_total_atoms data" "0 \<le> total_atoms h"
    "total_bonds h = calculate_total_bonds data"
    "total_angles h = calculate_total_angles data"
    "total_dihedrals h = calculate_total_dihedrals data"
    "total_impropers h = calculate_total_impropers data"
  using assms by (auto simp: open_totals_def split: if_splits)

lemma instances_cong:
  "moltypes h = moltypes data \<Longrightarrow> molecules h = molecules data \<Longrightarrow>
   instances h = instances data"
  by (simp add: instances_def find_moltype_def)

lemma calculate_total_cong:
  "moltypes h = moltypes data \<Longrightarrow> molecules h = molecules data \<Longrightarrow>
   calculate_total n h = calculate_total n data"
  by (simp add: calculate_total_def find_moltype_def)

lemma opened_totals:
  assumes "open_grotop_read fs path = Some h"
    and "list_all (\<lambda>(molname, count). 0 \<le> count) (molecules h)"
  shows "total_bonds h = int32 (record_count bonds h)"
    and "total_angles h = int32 (record_count angles h)"
    and "total_dihedrals h = int32 (record_count dihedrals h)"
    and "total_impropers h
         = int32 (\<Sum>mt\<leftarrow>instances h. int (length (filter is_improper (dihedrals mt))))"
proof -
  obtain data where d: "open_totals data = Some h"
    using assms(1) by (auto simp: open_grotop_read_def split: option.splits)
  note f = open_totals_fields [OF d]
  have c: "\<And>n. calculate_total n data = int32 (\<Sum>mt\<leftarrow>instances h. n mt)"
    using calculate_total_instances [of h] calculate_total_cong [OF f(1) f(3)] assms(2)
    by simp
  show "total_bonds h = int32 (record_count bonds h)"
    by (simp add: f calculate_total_bonds_def c record_count_def)
  show "total_angles h = int32 (record_count angles h)"
    by (simp add: f calculate_total_angles_def c record_count_def)
  show "total_dihedrals h = int32 (record_count dihedrals h)"
    by (simp add: f calculate_total_dihedrals_def c record_count_def)
  show "total_impropers h
      = int32 (\<Sum>mt\<leftarrow>instances h. int (length (filter is_improper (dihedrals mt))))"
    by (simp add: f calculate_total_impropers_eq c)
qed

lemma record_count_nonneg: "0 \<le> record_count f data"
  unfolding record_count_def by (rule sum_list_nonneg) auto

lemma record_count_single:
  assumes "molecules data = [(molname, count)]" and "find_moltype data molname = Some mt"
  shows "(\<Sum>mt\<leftarrow>instances data. n mt) = int (nat count) * n mt"
  unfolding instances_def assms(1) by (simp add: assms(2) sum_list_replicate)



subsection \<open>Bonds, dihedrals and impropers\<close>




lemma dihedrals_loop_eq:
  "connectivity_loop emit_dihedrals data
   = map global_quad (filter (\<lambda>(offset, d). funct d \<notin> {2, 4}) (dihedral_instances data))"
  unfolding connectivity_loop_instances dihedral_instances_def emit_dihedrals_def
  by (simp add: map_concat filter_concat comp_def filter_map global_quad_def
      emit_quad_def [abs_def] is_improper_def [abs_def] add.commute)

lemma impropers_loop_eq:
  "connectivity_loop emit_impropers data
   = map global_quad (filter (\<lambda>(offset, d). funct d \<in> {2, 4}) (dihedral_instances data))"
  unfolding connectivity_loop_instances dihedral_instances_def emit_impropers_def
  by (simp add: map_concat filter_concat comp_def filter_map global_quad_def
      emit_quad_def [abs_def] is_improper_def [abs_def] add.commute)

lemma length_dihedral_instances:
  "int (length (dihedral_instances data)) = record_count dihedrals data"
proof -
  have "int (length (dihedral_instances data))
      = (\<Sum>k\<leftarrow>[0..<length (instances data)]. int (length (dihedrals (instances data ! k))))"
    unfolding dihedral_instances_def length_concat int_sum_list
    by (simp add: comp_def)
  also have "\<dots> = (\<Sum>mt\<leftarrow>instances data. int (length (dihedrals mt)))"
    by (rule arg_cong [where f = sum_list]) (rule map_nth_upt)
  finally show ?thesis by (simp add: record_count_def)
qed

lemma length_proper_instances:
  "int (length (filter (\<lambda>(offset, d). funct d \<notin> {2, 4}) (dihedral_instances data)))
   = (\<Sum>mt\<leftarrow>instances data. int (length (filter (\<lambda>d. \<not> is_improper d) (dihedrals mt))))"
proof -
  have "int (length (connectivity_loop emit_dihedrals data))
      = (\<Sum>mt\<leftarrow>instances data. int (length (filter (\<lambda>d. \<not> is_improper d) (dihedrals mt))))"
    by (rule length_connectivity_loop) (simp add: emit_dihedrals_def)
  then show ?thesis by (simp add: dihedrals_loop_eq)
qed

lemma length_filter_partition:
  "int (length (filter (\<lambda>d. \<not> is_improper d) ds)) + int (length (filter is_improper ds))
   = int (length ds)"
  using sum_length_filter_compl [of is_improper ds] by linarith

lemma fill_table_exact:
  assumes "int (length (connectivity_loop emit data)) \<le> tot"
    and "width * tot < 2147483648" and "0 < width"
  shows "fill_table tot width emit data = Inr (connectivity_loop emit data)"
proof (cases "0 < tot")
  case True
  have "0 \<le> tot * width" using True assms(3) by simp
  then have cap: "int32 (tot * width) = tot * width"
    using assms(2) by (intro int32_id) (simp_all add: mult.commute)
  have "width * int (length (connectivity_loop emit data)) \<le> tot * width"
    using assms(1,3) by (simp add: mult.commute)
  then show ?thesis
    using True \<open>0 \<le> tot * width\<close> by (simp add: fill_table_def cap)
next
  case False
  then have "connectivity_loop emit data = []"
    using assms(1) by (cases "connectivity_loop emit data") auto
  with False show ?thesis by (simp add: fill_table_def)
qed

text \<open>
  C6 (as amended). For a handle returned by \<open>open_grotop_read\<close> whose roster counts are all
  non-negative and whose angle and dihedral tables stay below \<open>2^31\<close> ints (three for each
  angle record of each copy, four for each dihedral record: the sizes that the code computes
  in \<^verbatim>\<open>int\<close>), \<open>read_grotop_angles\<close> partitions the stored dihedral records of the emitted
  copies: the proper-dihedral table holds exactly the records whose \<open>funct\<close> is not 2 or 4
  (a \<open>funct\<close> that was absent is 0), the improper table exactly those whose \<open>funct\<close> is 2 or 4,
  both in emission order, and the two counts add up to the number of records, so that no
  record is in both.
\<close>

theorem read_angles_partition:
  assumes "open_grotop_read fs path = Some h"
    and "list_all (\<lambda>(molname, count). 0 \<le> count) (molecules h)"
    and "3 * record_count angles h < 2147483648"
    and "4 * record_count dihedrals h < 2147483648"
  shows "\<not> isl (read_grotop_angles h)
     \<and> dihedrals_out (projr (read_grotop_angles h))
         = map global_quad (filter (\<lambda>(offset, d). funct d \<notin> {2, 4}) (dihedral_instances h))
     \<and> impropers_out (projr (read_grotop_angles h))
         = map global_quad (filter (\<lambda>(offset, d). funct d \<in> {2, 4}) (dihedral_instances h))
     \<and> numdihedrals (projr (read_grotop_angles h))
         = int (length (dihedrals_out (projr (read_grotop_angles h))))
     \<and> numimpropers (projr (read_grotop_angles h))
         = int (length (impropers_out (projr (read_grotop_angles h))))
     \<and> numdihedrals (projr (read_grotop_angles h)) + numimpropers (projr (read_grotop_angles h))
         = int (length (dihedral_instances h))"
proof -
  let ?A = "connectivity_loop emit_angles h"
  let ?P = "connectivity_loop emit_dihedrals h"
  let ?I = "connectivity_loop emit_impropers h"
  note t = opened_totals [OF assms(1,2)]
  have a: "int (length ?A) = record_count angles h"
    unfolding record_count_def
    by (rule length_connectivity_loop) (simp add: emit_angles_def)
  have p: "int (length ?P)
      = (\<Sum>mt\<leftarrow>instances h. int (length (filter (\<lambda>d. \<not> is_improper d) (dihedrals mt))))"
    by (rule length_connectivity_loop) (simp add: emit_dihedrals_def)
  have i: "int (length ?I)
      = (\<Sum>mt\<leftarrow>instances h. int (length (filter is_improper (dihedrals mt))))"
    by (rule length_connectivity_loop) (simp add: emit_impropers_def)
  have sum: "int (length ?P) + int (length ?I) = record_count dihedrals h"
    unfolding p i record_count_def
    by (simp add: length_filter_partition flip: sum_list_addf)
  have ta: "total_angles h = record_count angles h"
    unfolding t(2) using record_count_nonneg [of angles h] assms(3)
    by (intro int32_id) simp_all
  have td: "total_dihedrals h = record_count dihedrals h"
    unfolding t(3) using record_count_nonneg [of dihedrals h] assms(4)
    by (intro int32_id) simp_all
  have ti: "total_impropers h = int (length ?I)"
    unfolding t(4) i [symmetric] using sum assms(4)
    by (intro int32_id) simp_all
  have fa: "fill_table (total_angles h) 3 emit_angles h = Inr ?A"
    using assms(3) by (intro fill_table_exact) (simp_all add: a ta)
  have fd: "fill_table (total_dihedrals h) 4 emit_dihedrals h = Inr ?P"
    using assms(4) sum by (intro fill_table_exact) (simp_all add: td)
  have fi: "fill_table (total_impropers h) 4 emit_impropers h = Inr ?I"
    using assms(4) sum by (intro fill_table_exact) (simp_all add: ti)
  have r: "read_grotop_angles h
      = Inr \<lparr>numangles = (if total_angles h > 0 then total_angles h else 0), angles_out = ?A,
              numdihedrals = int (length ?P), dihedrals_out = ?P,
              numimpropers = int (length ?I), impropers_out = ?I\<rparr>"
    by (simp add: read_grotop_angles_def fa fd fi)
  show ?thesis
    unfolding r using sum by (simp add: dihedrals_loop_eq impropers_loop_eq length_dihedral_instances)
qed

text \<open>
  The claim as stated fails in four ways. On the roster \<^verbatim>\<open>A 1\<close>, \<^verbatim>\<open>A -1\<close> the total of the
  dihedrals is 0, and the proper-dihedral table stays empty although the copy of the first
  entry has a record of \<open>funct\<close> 1. For \<open>2^30\<close> copies of a molecule type with four proper
  dihedrals the total is \<open>2^32\<close>, which an \<^verbatim>\<open>int\<close> holds as 0, and the table stays empty
  again. For \<open>2^30\<close> copies of a molecule type with one angle and no dihedral, the \<^verbatim>\<open>int\<close>
  product \<^verbatim>\<open>total_angles * 3\<close> is negative, the allocation of the angle table fails, and the
  function returns \<^verbatim>\<open>MOLFILE_ERROR\<close> before it reaches the dihedrals. For \<open>2^29\<close> copies of a
  molecule type with one proper dihedral the total is exact, the product
  \<^verbatim>\<open>total_dihedrals * 4\<close> is negative, and the function returns \<^verbatim>\<open>MOLFILE_ERROR\<close> as well.
\<close>

theorem read_angles_counterexample:
  "open_grotop_read negative_count_top ''negative.top'' \<noteq> None
   \<and> map global_quad (filter (\<lambda>(offset, d). funct d \<notin> {2, 4})
        (dihedral_instances (the (open_grotop_read negative_count_top ''negative.top''))))
       = [(1, 2, 3, 4)]
   \<and> read_grotop_angles (the (open_grotop_read negative_count_top ''negative.top''))
       = Inr \<lparr>numangles = 0, angles_out = [], numdihedrals = 0, dihedrals_out = [],
              numimpropers = 0, impropers_out = []\<rparr>
   \<and> open_grotop_read overflow_top ''overflow.top'' \<noteq> None
   \<and> molecules (the (open_grotop_read overflow_top ''overflow.top'')) = [(''A'', 1073741824)]
   \<and> record_count angles (the (open_grotop_read overflow_top ''overflow.top'')) = 0
   \<and> int (length (filter (\<lambda>(offset, d). funct d \<notin> {2, 4})
        (dihedral_instances (the (open_grotop_read overflow_top ''overflow.top'')))))
       = 4294967296
   \<and> read_grotop_angles (the (open_grotop_read overflow_top ''overflow.top''))
       = Inr \<lparr>numangles = 0, angles_out = [], numdihedrals = 0, dihedrals_out = [],
              numimpropers = 0, impropers_out = []\<rparr>
   \<and> open_grotop_read angle_overflow_top ''angles.top'' \<noteq> None
   \<and> molecules (the (open_grotop_read angle_overflow_top ''angles.top''))
       = [(''A'', 1073741824)]
   \<and> record_count angles (the (open_grotop_read angle_overflow_top ''angles.top''))
       = 1073741824
   \<and> record_count dihedrals (the (open_grotop_read angle_overflow_top ''angles.top'')) = 0
   \<and> read_grotop_angles (the (open_grotop_read angle_overflow_top ''angles.top''))
       = Inl Alloc_failed
   \<and> open_grotop_read dihedral_overflow_top ''dihedrals.top'' \<noteq> None
   \<and> molecules (the (open_grotop_read dihedral_overflow_top ''dihedrals.top''))
       = [(''A'', 536870912)]
   \<and> record_count angles (the (open_grotop_read dihedral_overflow_top ''dihedrals.top'')) = 0
   \<and> record_count dihedrals (the (open_grotop_read dihedral_overflow_top ''dihedrals.top''))
       = 536870912
   \<and> read_grotop_angles (the (open_grotop_read dihedral_overflow_top ''dihedrals.top''))
       = Inl Alloc_failed"
proof -
  let ?n = "the (open_grotop_read negative_count_top ''negative.top'')"
  let ?h = "the (open_grotop_read overflow_top ''overflow.top'')"
  let ?g = "the (open_grotop_read angle_overflow_top ''angles.top'')"
  let ?k = "the (open_grotop_read dihedral_overflow_top ''dihedrals.top'')"
  have neg: "open_grotop_read negative_count_top ''negative.top'' \<noteq> None
      \<and> map global_quad (filter (\<lambda>(offset, d). funct d \<notin> {2, 4}) (dihedral_instances ?n))
          = [(1, 2, 3, 4)]
      \<and> read_grotop_angles ?n
          = Inr \<lparr>numangles = 0, angles_out = [], numdihedrals = 0, dihedrals_out = [],
                 numimpropers = 0, impropers_out = []\<rparr>"
    by code_simp
  have ovf: "open_grotop_read overflow_top ''overflow.top'' \<noteq> None
      \<and> molecules ?h = [(''A'', 1073741824)]
      \<and> read_grotop_angles ?h
          = Inr \<lparr>numangles = 0, angles_out = [], numdihedrals = 0, dihedrals_out = [],
                 numimpropers = 0, impropers_out = []\<rparr>"
    by code_simp
  have "map_option (\<lambda>mt. (int (length (angles mt)),
            int (length (filter (\<lambda>d. \<not> is_improper d) (dihedrals mt)))))
          (find_moltype ?h ''A'') = Some (0, 4)"
    by code_simp
  then obtain mt where mt: "find_moltype ?h ''A'' = Some mt" "int (length (angles mt)) = 0"
      "int (length (filter (\<lambda>d. \<not> is_improper d) (dihedrals mt))) = 4"
    by auto
  have m: "molecules ?h = [(''A'', 1073741824)]"
    using ovf by blast
  have ha: "record_count angles ?h = 0"
    unfolding record_count_def record_count_single [OF m mt(1)] by (simp add: mt(2))
  have hd: "int (length (filter (\<lambda>(offset, d). funct d \<notin> {2, 4}) (dihedral_instances ?h)))
      = 4294967296"
    unfolding length_proper_instances record_count_single [OF m mt(1)] by (simp add: mt(3))
  have ang: "open_grotop_read angle_overflow_top ''angles.top'' \<noteq> None
      \<and> molecules ?g = [(''A'', 1073741824)]
      \<and> read_grotop_angles ?g = Inl Alloc_failed"
    by code_simp
  have "map_option (\<lambda>mt. (int (length (angles mt)), int (length (dihedrals mt))))
          (find_moltype ?g ''A'') = Some (1, 0)"
    by code_simp
  then obtain gt where gt: "find_moltype ?g ''A'' = Some gt" "int (length (angles gt)) = 1"
      "int (length (dihedrals gt)) = 0"
    by auto
  have gm: "molecules ?g = [(''A'', 1073741824)]"
    using ang by blast
  have ga: "record_count angles ?g = 1073741824"
    unfolding record_count_def record_count_single [OF gm gt(1)] by (simp add: gt(2))
  have gd: "record_count dihedrals ?g = 0"
    unfolding record_count_def record_count_single [OF gm gt(1)] by (simp add: gt(3))
  have dih: "open_grotop_read dihedral_overflow_top ''dihedrals.top'' \<noteq> None
      \<and> molecules ?k = [(''A'', 536870912)]
      \<and> read_grotop_angles ?k = Inl Alloc_failed"
    by code_simp
  have "map_option (\<lambda>mt. (int (length (angles mt)), int (length (dihedrals mt))))
          (find_moltype ?k ''A'') = Some (0, 1)"
    by code_simp
  then obtain kt where kt: "find_moltype ?k ''A'' = Some kt" "int (length (angles kt)) = 0"
      "int (length (dihedrals kt)) = 1"
    by auto
  have km: "molecules ?k = [(''A'', 536870912)]"
    using dih by blast
  have ka: "record_count angles ?k = 0"
    unfolding record_count_def record_count_single [OF km kt(1)] by (simp add: kt(2))
  have kd: "record_count dihedrals ?k = 536870912"
    unfolding record_count_def record_count_single [OF km kt(1)] by (simp add: kt(3))
  from neg ovf ha hd ang ga gd dih ka kd show ?thesis by blast
qed

theorem read_angles_partition_witness:
  "open_grotop_read improper_top ''improper.top'' \<noteq> None
   \<and> list_all (\<lambda>(molname, count). 0 \<le> count)
         (molecules (the (open_grotop_read improper_top ''improper.top'')))
   \<and> 3 * record_count angles (the (open_grotop_read improper_top ''improper.top''))
       < 2147483648
   \<and> 4 * record_count dihedrals (the (open_grotop_read improper_top ''improper.top''))
       < 2147483648
   \<and> dihedrals_out (projr (read_grotop_angles (the (open_grotop_read improper_top ''improper.top''))))
       = [(1, 2, 3, 4), (2, 3, 4, 1), (1, 3, 2, 4), (5, 6, 7, 8), (6, 7, 8, 5), (5, 7, 6, 8)]
   \<and> impropers_out (projr (read_grotop_angles (the (open_grotop_read improper_top ''improper.top''))))
       = [(1, 2, 3, 4), (4, 3, 2, 1), (5, 6, 7, 8), (8, 7, 6, 5)]"
proof -
  let ?h = "the (open_grotop_read improper_top ''improper.top'')"
  have o: "open_grotop_read improper_top ''improper.top'' = Some ?h"
    by code_simp
  have n: "open_grotop_read improper_top ''improper.top'' \<noteq> None"
    by code_simp
  have c: "list_all (\<lambda>(molname, count). 0 \<le> count) (molecules ?h)"
    by code_simp
  have a: "3 * record_count angles ?h < 2147483648"
    by code_simp
  have d: "4 * record_count dihedrals ?h < 2147483648"
    by code_simp
  have p: "map global_quad (filter (\<lambda>(offset, d). funct d \<notin> {2, 4}) (dihedral_instances ?h))
      = [(1, 2, 3, 4), (2, 3, 4, 1), (1, 3, 2, 4), (5, 6, 7, 8), (6, 7, 8, 5), (5, 7, 6, 8)]"
    by code_simp
  have i: "map global_quad (filter (\<lambda>(offset, d). funct d \<in> {2, 4}) (dihedral_instances ?h))
      = [(1, 2, 3, 4), (4, 3, 2, 1), (5, 6, 7, 8), (8, 7, 6, 5)]"
    by code_simp
  show ?thesis
    using read_angles_partition [OF o c a d] n c a d unfolding p i by (intro conjI) simp_all
qed

lemma total_atoms_loop_unknown:
  "list_ex (\<lambda>(molname, count). find_moltype data molname = None) ms \<Longrightarrow>
   total_atoms_loop data ms tot = - 1"
  by (induction ms arbitrary: tot) (auto split: option.splits)

lemma total_atoms_loop_append:
  "total_atoms_loop data (ms1 @ ms2) tot
   = (if list_ex (\<lambda>(molname, count). find_moltype data molname = None) ms1 then - 1
      else total_atoms_loop data ms2 (total_atoms_loop data ms1 tot))"
  by (induction ms1 arbitrary: tot) (auto split: option.splits)

lemma total_atoms_loop_range:
  "- 2147483648 \<le> tot \<Longrightarrow> tot < 2147483648 \<Longrightarrow>
   - 2147483648 \<le> total_atoms_loop data ms tot \<and> total_atoms_loop data ms tot < 2147483648"
  by (induction ms arbitrary: tot) (auto simp: int32_range split: option.splits)

lemma find_moltype_molecules_update [simp]:
  "find_moltype (data\<lparr>molecules := ms\<rparr>) = find_moltype data"
  by (simp add: fun_eq_iff find_moltype_def)

lemma copy_atom_molecules_update [simp]:
  "copy_atom (data\<lparr>molecules := ms\<rparr>) = copy_atom data"
  by (simp add: fun_eq_iff copy_atom_def find_atomtype_mass_def)

lemma structure_copy_molecules_update [simp]:
  "structure_copy (data\<lparr>molecules := ms\<rparr>) = structure_copy data"
  by (simp add: fun_eq_iff structure_copy_def)

lemma total_atoms_loop_molecules_update [simp]:
  "total_atoms_loop (data\<lparr>molecules := ms\<rparr>) ms' tot = total_atoms_loop data ms' tot"
  by (induction ms' arbitrary: tot) (auto split: option.splits)

lemma zero_count_entry:
  assumes "find_moltype data molname \<noteq> None"
  shows "calculate_total_atoms (data\<lparr>molecules := ms1 @ (molname, 0) # ms2\<rparr>)
         = calculate_total_atoms (data\<lparr>molecules := ms1 @ ms2\<rparr>)"
    and "calculate_total n (data\<lparr>molecules := ms1 @ (molname, 0) # ms2\<rparr>)
         = calculate_total n (data\<lparr>molecules := ms1 @ ms2\<rparr>)"
    and "calculate_total_impropers (data\<lparr>molecules := ms1 @ (molname, 0) # ms2\<rparr>)
         = calculate_total_impropers (data\<lparr>molecules := ms1 @ ms2\<rparr>)"
    and "instances (data\<lparr>molecules := ms1 @ (molname, 0) # ms2\<rparr>)
         = instances (data\<lparr>molecules := ms1 @ ms2\<rparr>)"
proof -
  obtain mt where mt: "find_moltype data molname = Some mt"
    using assms by auto
  have "int32 (total_atoms_loop data ms1 0) = total_atoms_loop data ms1 0"
    using total_atoms_loop_range [of 0 data ms1] by (intro int32_id) simp_all
  then show "calculate_total_atoms (data\<lparr>molecules := ms1 @ (molname, 0) # ms2\<rparr>)
         = calculate_total_atoms (data\<lparr>molecules := ms1 @ ms2\<rparr>)"
    by (simp add: calculate_total_atoms_def total_atoms_loop_append mt int32_def)
  show "calculate_total n (data\<lparr>molecules := ms1 @ (molname, 0) # ms2\<rparr>)
         = calculate_total n (data\<lparr>molecules := ms1 @ ms2\<rparr>)"
    by (simp add: calculate_total_sum mt)
  then show "calculate_total_impropers (data\<lparr>molecules := ms1 @ (molname, 0) # ms2\<rparr>)
         = calculate_total_impropers (data\<lparr>molecules := ms1 @ ms2\<rparr>)"
    by (simp add: calculate_total_impropers_eq calculate_total_sum mt)
  show "instances (data\<lparr>molecules := ms1 @ (molname, 0) # ms2\<rparr>)
         = instances (data\<lparr>molecules := ms1 @ ms2\<rparr>)"
    by (simp add: instances_def mt)
qed

lemma zero_count_reads:
  assumes "find_moltype h molname \<noteq> None" and "molecules h = ms1 @ (molname, 0) # ms2"
  shows "read_grotop_structure h = read_grotop_structure (h\<lparr>molecules := ms1 @ ms2\<rparr>)"
    and "connectivity_loop emit h = connectivity_loop emit (h\<lparr>molecules := ms1 @ ms2\<rparr>)"
proof -
  have h: "h\<lparr>molecules := ms1 @ (molname, 0) # ms2\<rparr> = h"
    using assms(2) by simp
  have i: "instances (h\<lparr>molecules := ms1 @ ms2\<rparr>) = instances h"
    using zero_count_entry(4) [OF assms(1), of ms1 ms2] by (simp add: h)
  show "read_grotop_structure h = read_grotop_structure (h\<lparr>molecules := ms1 @ ms2\<rparr>)"
    unfolding read_grotop_structure_instances resid_base_def i by simp
  show "connectivity_loop emit h = connectivity_loop emit (h\<lparr>molecules := ms1 @ ms2\<rparr>)"
    unfolding connectivity_loop_instances atoms_before_def i by simp
qed

lemma zero_count_handle:
  assumes "find_moltype h molname \<noteq> None" and "molecules h = ms1 @ (molname, 0) # ms2"
  shows "read_grotop_bonds h = read_grotop_bonds (h\<lparr>molecules := ms1 @ ms2\<rparr>)"
    and "read_grotop_angles h = read_grotop_angles (h\<lparr>molecules := ms1 @ ms2\<rparr>)"
  by (simp_all add: read_grotop_bonds_def read_grotop_angles_def fill_table_def Let_def
      zero_count_reads(2) [OF assms, symmetric])

subsection \<open>The roster: unknown molecule types and counts of zero\<close>

text \<open>
  C8. If an entry of the roster names a molecule type that was never defined, \<open>open_grotop_read\<close>
  returns the null handle. A roster entry with count 0 whose molecule type is defined is not an
  error and contributes nothing to any global table: \<open>open_grotop_read\<close> returns the null handle
  for the file only if the roster without that entry is refused (its atom total, as
  \<open>calculate_total_atoms\<close> computes it, is negative); otherwise it returns a handle whose five
  totals are those of the roster without the entry, and from which \<open>read_grotop_structure\<close>,
  \<open>read_grotop_bonds\<close> and \<open>read_grotop_angles\<close> return what they return when the entry is taken
  out of the handle's roster. And for a second file that parses to the same data but for
  that entry of the roster, \<open>open_grotop_read\<close> returns the null handle for both files or for
  neither, with the same number of atoms and the same atoms, bonds, angles, dihedrals and
  impropers.
\<close>

theorem unknown_moltype_fatal_zero_count_empty:
  "(parse_topology_file fs path calloc_grotop_data 0 = Some data
      \<and> list_ex (\<lambda>(molname, count). find_moltype data molname = None) (molecules data)
    \<longrightarrow> open_grotop_read fs path = None)
   \<and> (parse_topology_file fs path calloc_grotop_data 0 = Some data
      \<and> molecules data = ms1 @ (molname, 0) # ms2 \<and> find_moltype data molname \<noteq> None
    \<longrightarrow> (case open_grotop_read fs path of
           None \<Rightarrow> calculate_total_atoms (data\<lparr>molecules := ms1 @ ms2\<rparr>) < 0
         | Some h \<Rightarrow>
             0 \<le> calculate_total_atoms (data\<lparr>molecules := ms1 @ ms2\<rparr>)
             \<and> total_atoms h = calculate_total_atoms (data\<lparr>molecules := ms1 @ ms2\<rparr>)
             \<and> total_bonds h = calculate_total_bonds (data\<lparr>molecules := ms1 @ ms2\<rparr>)
             \<and> total_angles h = calculate_total_angles (data\<lparr>molecules := ms1 @ ms2\<rparr>)
             \<and> total_dihedrals h = calculate_total_dihedrals (data\<lparr>molecules := ms1 @ ms2\<rparr>)
             \<and> total_impropers h = calculate_total_impropers (data\<lparr>molecules := ms1 @ ms2\<rparr>)
             \<and> read_grotop_structure h = read_grotop_structure (h\<lparr>molecules := ms1 @ ms2\<rparr>)
             \<and> read_grotop_bonds h = read_grotop_bonds (h\<lparr>molecules := ms1 @ ms2\<rparr>)
             \<and> read_grotop_angles h = read_grotop_angles (h\<lparr>molecules := ms1 @ ms2\<rparr>)))
   \<and> (parse_topology_file fs path calloc_grotop_data 0 = Some data
      \<and> molecules data = ms1 @ (molname, 0) # ms2 \<and> find_moltype data molname \<noteq> None
      \<and> parse_topology_file fs' path' calloc_grotop_data 0
          = Some (data\<lparr>molecules := ms1 @ ms2\<rparr>)
    \<longrightarrow> (open_grotop_read fs path = None) = (open_grotop_read fs' path' = None)
        \<and> map_option total_atoms (open_grotop_read fs path)
            = map_option total_atoms (open_grotop_read fs' path')
        \<and> map_option read_grotop_structure (open_grotop_read fs path)
            = map_option read_grotop_structure (open_grotop_read fs' path')
        \<and> map_option read_grotop_bonds (open_grotop_read fs path)
            = map_option read_grotop_bonds (open_grotop_read fs' path')
        \<and> map_option read_grotop_angles (open_grotop_read fs path)
            = map_option read_grotop_angles (open_grotop_read fs' path'))"
proof -
  have unknown: "open_grotop_read fs path = None"
    if "parse_topology_file fs path calloc_grotop_data 0 = Some data
      \<and> list_ex (\<lambda>(molname, count). find_moltype data molname = None) (molecules data)"
    using that
    by (simp add: open_grotop_read_def open_totals_def calculate_total_atoms_def
        total_atoms_loop_unknown)
  let ?e = "data\<lparr>molecules := ms1 @ ms2\<rparr>"
  have zero: "open_grotop_read fs path = open_totals data
      \<and> open_totals ?e = map_option (\<lambda>h. h\<lparr>molecules := ms1 @ ms2\<rparr>) (open_totals data)
      \<and> (case open_totals data of
           None \<Rightarrow> calculate_total_atoms ?e < 0
         | Some h \<Rightarrow>
             0 \<le> calculate_total_atoms ?e
             \<and> total_atoms h = calculate_total_atoms ?e
             \<and> total_bonds h = calculate_total_bonds ?e
             \<and> total_angles h = calculate_total_angles ?e
             \<and> total_dihedrals h = calculate_total_dihedrals ?e
             \<and> total_impropers h = calculate_total_impropers ?e
             \<and> read_grotop_structure h = read_grotop_structure (h\<lparr>molecules := ms1 @ ms2\<rparr>)
             \<and> read_grotop_bonds h = read_grotop_bonds (h\<lparr>molecules := ms1 @ ms2\<rparr>)
             \<and> read_grotop_angles h = read_grotop_angles (h\<lparr>molecules := ms1 @ ms2\<rparr>))"
    if a: "parse_topology_file fs path calloc_grotop_data 0 = Some data
      \<and> molecules data = ms1 @ (molname, 0) # ms2 \<and> find_moltype data molname \<noteq> None"
  proof -
    have o: "open_grotop_read fs path = open_totals data"
      using a by (simp add: open_grotop_read_def)
    have d: "data = data\<lparr>molecules := ms1 @ (molname, 0) # ms2\<rparr>"
      using a by simp
    have f: "find_moltype data molname \<noteq> None" using a by simp
    note z = zero_count_entry [OF f, where ?ms1.0 = ms1 and ?ms2.0 = ms2]
    have tot: "calculate_total_atoms data = calculate_total_atoms ?e"
      "calculate_total_bonds data = calculate_total_bonds ?e"
      "calculate_total_angles data = calculate_total_angles ?e"
      "calculate_total_dihedrals data = calculate_total_dihedrals ?e"
      "calculate_total_impropers data = calculate_total_impropers ?e"
      by (subst d, simp add: z calculate_total_bonds_def calculate_total_angles_def
          calculate_total_dihedrals_def)+
    have e: "open_totals ?e = map_option (\<lambda>h. h\<lparr>molecules := ms1 @ ms2\<rparr>) (open_totals data)"
      by (simp add: open_totals_def tot)
    have c: "case open_totals data of
           None \<Rightarrow> calculate_total_atoms ?e < 0
         | Some h \<Rightarrow>
             0 \<le> calculate_total_atoms ?e
             \<and> total_atoms h = calculate_total_atoms ?e
             \<and> total_bonds h = calculate_total_bonds ?e
             \<and> total_angles h = calculate_total_angles ?e
             \<and> total_dihedrals h = calculate_total_dihedrals ?e
             \<and> total_impropers h = calculate_total_impropers ?e
             \<and> read_grotop_structure h = read_grotop_structure (h\<lparr>molecules := ms1 @ ms2\<rparr>)
             \<and> read_grotop_bonds h = read_grotop_bonds (h\<lparr>molecules := ms1 @ ms2\<rparr>)
             \<and> read_grotop_angles h = read_grotop_angles (h\<lparr>molecules := ms1 @ ms2\<rparr>)"
    proof (cases "open_totals data")
      case None
      then show ?thesis
        by (simp add: open_totals_def tot split: if_splits)
    next
      case (Some h)
      note fl = open_totals_fields [OF Some]
      have h: "find_moltype h molname \<noteq> None" "molecules h = ms1 @ (molname, 0) # ms2"
        using fl(1,3) f a by (simp_all add: find_moltype_def)
      show ?thesis
        unfolding Some option.case
        using fl(4-9) zero_count_reads(1) [OF h] zero_count_handle [OF h]
        by (simp add: tot)
    qed
    from o e c show ?thesis by (intro conjI)
  qed
  have two: "(open_grotop_read fs path = None) = (open_grotop_read fs' path' = None)
        \<and> map_option total_atoms (open_grotop_read fs path)
            = map_option total_atoms (open_grotop_read fs' path')
        \<and> map_option read_grotop_structure (open_grotop_read fs path)
            = map_option read_grotop_structure (open_grotop_read fs' path')
        \<and> map_option read_grotop_bonds (open_grotop_read fs path)
            = map_option read_grotop_bonds (open_grotop_read fs' path')
        \<and> map_option read_grotop_angles (open_grotop_read fs path)
            = map_option read_grotop_angles (open_grotop_read fs' path')"
    if b: "parse_topology_file fs path calloc_grotop_data 0 = Some data
      \<and> molecules data = ms1 @ (molname, 0) # ms2 \<and> find_moltype data molname \<noteq> None
      \<and> parse_topology_file fs' path' calloc_grotop_data 0 = Some ?e"
  proof -
    have a: "parse_topology_file fs path calloc_grotop_data 0 = Some data
      \<and> molecules data = ms1 @ (molname, 0) # ms2 \<and> find_moltype data molname \<noteq> None"
      using b by blast
    have o': "open_grotop_read fs' path' = open_totals ?e"
      using b by (simp add: open_grotop_read_def)
    show ?thesis
    proof (cases "open_totals data")
      case None
      then show ?thesis
        using zero [OF a] by (simp add: o')
    next
      case (Some h)
      then show ?thesis
        using zero [OF a] by (simp add: o')
    qed
  qed
  show ?thesis
    using unknown zero two by (intro conjI impI) simp_all
qed

text \<open>
  The witness of C8: a roster that names the undefined molecule type \<^verbatim>\<open>B\<close>, and the roster
  \<^verbatim>\<open>A 1\<close>, \<^verbatim>\<open>A 0\<close>, \<^verbatim>\<open>A 1\<close> of a molecule type with two atoms and one bond, for which
  \<open>open_grotop_read\<close> returns a handle with four atoms and two bonds, as it does for the roster
  \<^verbatim>\<open>A 1\<close>, \<^verbatim>\<open>A 1\<close>.
\<close>

theorem unknown_moltype_fatal_zero_count_empty_witness:
  "open_grotop_read unknown_moltype_top ''unknown.top'' = None
   \<and> open_grotop_read zero_count_top ''zero.top'' \<noteq> None
   \<and> molecules (the (open_grotop_read zero_count_top ''zero.top''))
       = [(''A'', 1), (''A'', 0), (''A'', 1)]
   \<and> total_atoms (the (open_grotop_read zero_count_top ''zero.top'')) = 4
   \<and> total_bonds (the (open_grotop_read zero_count_top ''zero.top'')) = 2
   \<and> map m_resid (read_grotop_structure (the (open_grotop_read zero_count_top ''zero.top'')))
       = [1, 1, 2, 2]
   \<and> read_grotop_bonds (the (open_grotop_read zero_count_top ''zero.top''))
       = Inr (2, [1, 3], [2, 4])
   \<and> map_option read_grotop_bonds (open_grotop_read zero_count_removed_top ''removed.top'')
       = Some (Inr (2, [1, 3], [2, 4]))"
proof -
  let ?u = "the (parse_topology_file unknown_moltype_top ''unknown.top'' calloc_grotop_data 0)"
  let ?d = "the (parse_topology_file zero_count_top ''zero.top'' calloc_grotop_data 0)"
  let ?h = "the (open_grotop_read zero_count_top ''zero.top'')"
  let ?e = "?d\<lparr>molecules := [(''A'', 1)] @ [(''A'', 1)]\<rparr>"
  have u: "parse_topology_file unknown_moltype_top ''unknown.top'' calloc_grotop_data 0 = Some ?u
      \<and> list_ex (\<lambda>(molname, count). find_moltype ?u molname = None) (molecules ?u)"
    by code_simp
  have d: "parse_topology_file zero_count_top ''zero.top'' calloc_grotop_data 0 = Some ?d
      \<and> molecules ?d = [(''A'', 1)] @ (''A'', 0) # [(''A'', 1)]
      \<and> find_moltype ?d ''A'' \<noteq> None"
    by code_simp
  have r: "parse_topology_file zero_count_removed_top ''removed.top'' calloc_grotop_data 0
      = Some ?e"
    by code_simp
  have ne: "open_grotop_read zero_count_top ''zero.top'' \<noteq> None"
    by code_simp
  then obtain hh where hh: "open_grotop_read zero_count_top ''zero.top'' = Some hh"
    by auto
  have sel: "?h = hh"
    by (simp only: hh option.sel)
  have m: "molecules ?h = [(''A'', 1), (''A'', 0), (''A'', 1)]"
    by code_simp
  have t0: "calculate_total_atoms ?e = 4" "calculate_total_bonds ?e = 2"
    by code_simp+
  have r0: "map m_resid (read_grotop_structure (?h\<lparr>molecules := [(''A'', 1)] @ [(''A'', 1)]\<rparr>))
        = [1, 1, 2, 2]"
      "read_grotop_bonds (?h\<lparr>molecules := [(''A'', 1)] @ [(''A'', 1)]\<rparr>)
        = Inr (2, [1, 3], [2, 4])"
    by code_simp+
  note inst = unknown_moltype_fatal_zero_count_empty
      [of zero_count_top "''zero.top''" ?d "[(''A'', 1)]" "''A''" "[(''A'', 1)]"
          zero_count_removed_top "''removed.top''"]
  have 1: "open_grotop_read unknown_moltype_top ''unknown.top'' = None"
    using unknown_moltype_fatal_zero_count_empty
      [of unknown_moltype_top "''unknown.top''" ?u] u by blast
  have 2: "case open_grotop_read zero_count_top ''zero.top'' of
           None \<Rightarrow> calculate_total_atoms ?e < 0
         | Some h \<Rightarrow>
             0 \<le> calculate_total_atoms ?e
             \<and> total_atoms h = calculate_total_atoms ?e
             \<and> total_bonds h = calculate_total_bonds ?e
             \<and> total_angles h = calculate_total_angles ?e
             \<and> total_dihedrals h = calculate_total_dihedrals ?e
             \<and> total_impropers h = calculate_total_impropers ?e
             \<and> read_grotop_structure h
                 = read_grotop_structure (h\<lparr>molecules := [(''A'', 1)] @ [(''A'', 1)]\<rparr>)
             \<and> read_grotop_bonds h
                 = read_grotop_bonds (h\<lparr>molecules := [(''A'', 1)] @ [(''A'', 1)]\<rparr>)
             \<and> read_grotop_angles h
                 = read_grotop_angles (h\<lparr>molecules := [(''A'', 1)] @ [(''A'', 1)]\<rparr>)"
    using inst d by blast
  have 3: "total_atoms hh = calculate_total_atoms ?e
      \<and> total_bonds hh = calculate_total_bonds ?e
      \<and> read_grotop_structure hh
          = read_grotop_structure (hh\<lparr>molecules := [(''A'', 1)] @ [(''A'', 1)]\<rparr>)
      \<and> read_grotop_bonds hh
          = read_grotop_bonds (hh\<lparr>molecules := [(''A'', 1)] @ [(''A'', 1)]\<rparr>)"
    using 2 by (simp only: hh option.case)
  have 4: "total_atoms ?h = 4" "total_bonds ?h = 2"
      "map m_resid (read_grotop_structure ?h) = [1, 1, 2, 2]"
      "read_grotop_bonds ?h = Inr (2, [1, 3], [2, 4])"
    using 3 r0 t0 unfolding sel by simp_all
  have 5: "map_option read_grotop_bonds (open_grotop_read zero_count_top ''zero.top'')
      = map_option read_grotop_bonds (open_grotop_read zero_count_removed_top ''removed.top'')"
    using inst d r by blast
  have 6: "map_option read_grotop_bonds (open_grotop_read zero_count_removed_top ''removed.top'')
      = Some (Inr (2, [1, 3], [2, 4]))"
    using 4(4) unfolding 5 [symmetric] sel by (simp only: hh option.map)
  show ?thesis
    using 1 ne m 4 6 by (intro conjI)
qed









lemma emit_from_molecules_update [simp]:
  "emit_from (data\<lparr>molecules := ms\<rparr>) r insts = emit_from data r insts"
  by (induction insts arbitrary: r) simp_all




lemma while_ext:
  assumes "case q of [] \<Rightarrow> True | c # r \<Rightarrow> \<not> P c"
  shows "takeWhile P (u @ q) = takeWhile P u" and "dropWhile P (u @ q) = dropWhile P u @ q"
  using assms by (induction u) (auto split: list.splits)

lemma isspace_cases:
  "isspace c \<Longrightarrow> c = CHR '' '' \<or> c = CHR 0x09 \<or> c = CHR 0x0A \<or> c = CHR 0x0B
     \<or> c = CHR 0x0C \<or> c = CHR 0x0D"
  by (simp add: isspace_def)

lemma space_char:
  assumes "isspace c"
  shows "\<not> isdigit c" and "\<not> isxdigit c" and "tolower c = c"
  using isspace_cases [OF assms] by (auto simp: isdigit_def isxdigit_def tolower_def)

lemma ws_start_not:
  assumes "ws_start q" and "\<And>c. isspace c \<Longrightarrow> \<not> P c"
  shows "case q of [] \<Rightarrow> True | c # r \<Rightarrow> \<not> P c"
  using assms by (auto simp: ws_start_def split: list.splits)

lemma digits_ext:
  assumes "ws_start q" and "\<And>c. isspace c \<Longrightarrow> \<not> dig c"
  shows "takeWhile dig (u @ q) = takeWhile dig u"
    and "dropWhile dig (u @ q) = dropWhile dig u @ q"
  using while_ext [OF ws_start_not [OF assms]] by simp_all

lemma scan_sign_ext:
  "ws_start q \<Longrightarrow> scan_sign (u @ q) = (fst (scan_sign u), snd (scan_sign u) @ q)"
  by (cases u; cases q) (auto simp: scan_sign_def ws_start_def isspace_def)

lemma prefix_ci_ext:
  assumes "ws_start q" and "list_all (\<lambda>x. \<not> isspace x) w"
  shows "prefix_ci w (u @ q) = prefix_ci w u"
  using assms(2)
proof (induction w arbitrary: u)
  case Nil
  show ?case by simp
next
  case (Cons x w)
  show ?case
  proof (cases u)
    case u: Nil
    show ?thesis
    proof (cases q)
      case Nil
      with u show ?thesis by simp
    next
      case (Cons c r)
      then have "isspace c" using assms(1) by (simp add: ws_start_def)
      then have "tolower c \<noteq> x"
        using Cons.prems by (auto simp: space_char(3))
      then show ?thesis by (simp add: u Cons)
    qed
  next
    case (Cons a u')
    then show ?thesis using Cons.IH [of u'] Cons.prems by simp
  qed
qed

lemma prefix_ci_length: "prefix_ci w u \<Longrightarrow> length w \<le> length u"
  by (induction w u rule: prefix_ci.induct) simp_all

lemma scan_frac_ext:
  assumes "ws_start q" and "\<And>c. isspace c \<Longrightarrow> \<not> dig c"
  shows "scan_frac dig (u @ q)
         = (fst (scan_frac dig u), fst (snd (scan_frac dig u)), snd (snd (scan_frac dig u)) @ q)"
proof (cases u)
  case Nil
  with assms(1) show ?thesis
    by (cases q) (auto simp: scan_frac_def ws_start_def isspace_def)
next
  case (Cons c r)
  then show ?thesis by (simp add: scan_frac_def digits_ext [OF assms])
qed

lemma scan_exp_ext:
  assumes "ws_start q" and "\<not> isspace ec"
  shows "scan_exp ec gd (u @ q) = (fst (scan_exp ec gd u), snd (scan_exp ec gd u) @ q)"
proof (cases u)
  case u: Nil
  show ?thesis
  proof (cases q)
    case Nil
    with u show ?thesis by (simp add: scan_exp_def)
  next
    case (Cons c r)
    then have "isspace c" using assms(1) by (simp add: ws_start_def)
    then have "tolower c \<noteq> ec" using assms(2) by (auto simp: space_char(3))
    then show ?thesis by (simp add: u Cons scan_exp_def)
  qed
next
  case (Cons c r)
  show ?thesis
    unfolding Cons scan_exp_def
    by (simp add: scan_sign_ext [OF assms(1)] digits_ext [OF assms(1)] space_char(1)
        Let_def split_beta)
qed

lemma dec_digits_ext:
  assumes "ws_start q"
  shows "takeWhile isdigit (u @ q) = takeWhile isdigit u"
    and "dropWhile isdigit (u @ q) = dropWhile isdigit u @ q"
    and "scan_frac isdigit (u @ q)
         = (fst (scan_frac isdigit u), fst (snd (scan_frac isdigit u)),
            snd (snd (scan_frac isdigit u)) @ q)"
  by (rule digits_ext [OF assms] scan_frac_ext [OF assms], simp add: space_char)+

lemma hex_digits_ext:
  assumes "ws_start q"
  shows "takeWhile isxdigit (u @ q) = takeWhile isxdigit u"
    and "dropWhile isxdigit (u @ q) = dropWhile isxdigit u @ q"
    and "scan_frac isxdigit (u @ q)
         = (fst (scan_frac isxdigit u), fst (snd (scan_frac isxdigit u)),
            snd (snd (scan_frac isxdigit u)) @ q)"
  by (rule digits_ext [OF assms] scan_frac_ext [OF assms], simp add: space_char)+

lemma scan_dec_ext:
  assumes "ws_start q"
  shows "map_option fst (scan_dec negative (u @ q)) = map_option fst (scan_dec negative u)"
  unfolding scan_dec_def Let_def split_beta
    dec_digits_ext [OF assms] fst_conv snd_conv
  by (simp add: scan_exp_ext [OF assms] isspace_def)

lemma scan_hex_ext:
  assumes "ws_start q"
  shows "map_option fst (scan_hex negative (u @ q)) = map_option fst (scan_hex negative u)"
  unfolding scan_hex_def Let_def split_beta
    hex_digits_ext [OF assms] fst_conv snd_conv
  by (simp add: scan_exp_ext [OF assms] isspace_def)

lemma scan_inf_ext:
  assumes "ws_start q"
  shows "map_option fst (scan_inf negative (u @ q)) = map_option fst (scan_inf negative u)"
proof -
  have nf: "prefix_ci ''nf'' (u @ q) = prefix_ci ''nf'' u"
    by (rule prefix_ci_ext [OF assms]) (simp add: isspace_def)
  show ?thesis
  proof (cases "prefix_ci ''nf'' u")
    case False
    then show ?thesis by (simp add: scan_inf_def nf)
  next
    case True
    then have "2 \<le> length u"
      using prefix_ci_length [of "''nf''" u] by simp
    then have d2: "drop 2 (u @ q) = drop 2 u @ q" by simp
    have i: "prefix_ci ''i'' (drop 2 u @ q) = prefix_ci ''i'' (drop 2 u)"
      by (rule prefix_ci_ext [OF assms]) (simp add: isspace_def)
    show ?thesis
    proof (cases "prefix_ci ''i'' (drop 2 u)")
      case False
      then show ?thesis using True by (simp add: scan_inf_def nf d2 i del: drop_append)
    next
      case i': True
      then have "3 \<le> length u"
        using prefix_ci_length [of "''i''" "drop 2 u"] by simp
      then have d3: "drop 3 (u @ q) = drop 3 u @ q" by simp
      have "prefix_ci ''nity'' (drop 3 u @ q) = prefix_ci ''nity'' (drop 3 u)"
        by (rule prefix_ci_ext [OF assms]) (simp add: isspace_def)
      then show ?thesis using True i' by (simp add: scan_inf_def nf d2 i d3 del: drop_append)
    qed
  qed
qed

lemma scan_f_ext:
  assumes "ws_start q" and "skip_ws s = t @ q" and "skip_ws s' = t" and "t \<noteq> []"
  shows "map_option fst (scan_f s) = map_option fst (scan_f s')"
proof -
  obtain negative x where sg: "scan_sign t = (negative, x)"
    by (cases "scan_sign t")
  have sq: "scan_sign (t @ q) = (negative, x @ q)"
    by (simp add: scan_sign_ext [OF assms(1)] sg)
  show ?thesis
  proof (cases x)
    case Nil
    have "scan_dec negative q = None"
    proof (cases q)
      case Nil
      show ?thesis by (simp add: Nil scan_dec_def scan_frac_def scan_exp_def)
    next
      case (Cons c r)
      then have "isspace c" using assms(1) by (simp add: ws_start_def)
      then show ?thesis
        using space_char(1) [of c]
        by (auto simp: Cons scan_dec_def scan_frac_def scan_exp_def isspace_def)
    qed
    moreover have "case q of [] \<Rightarrow> True | c # r \<Rightarrow> tolower c \<noteq> CHR ''n'' \<and> tolower c \<noteq> CHR ''i''
        \<and> c \<noteq> CHR ''0''"
      using assms(1) by (auto simp: ws_start_def space_char(3) isspace_def split: list.splits)
    ultimately have "(case q of [] \<Rightarrow> None
        | c # r \<Rightarrow>
            if tolower c = CHR ''n'' then
              (if prefix_ci ''an'' r then Some (NaN, drop 2 r) else None)
            else if tolower c = CHR ''i'' then scan_inf negative r
            else if c = CHR ''0'' \<and> prefix_ci ''x'' r then scan_hex negative (drop 1 r)
            else scan_dec negative q) = None"
      by (cases q) auto
    then show ?thesis
      using assms(4) by (simp add: scan_f_def assms(2,3) sq sg Nil)
  next
    case (Cons c r)
    have an: "prefix_ci ''an'' (r @ q) = prefix_ci ''an'' r"
      by (rule prefix_ci_ext [OF assms(1)]) (simp add: isspace_def)
    have px: "prefix_ci ''x'' (r @ q) = prefix_ci ''x'' r"
      by (rule prefix_ci_ext [OF assms(1)]) (simp add: isspace_def)
    have hx: "prefix_ci ''x'' r \<Longrightarrow> drop (Suc 0) (r @ q) = drop (Suc 0) r @ q"
      using prefix_ci_length [of "''x''" r] by simp
    have dc: "map_option fst (scan_dec negative (c # r @ q))
        = map_option fst (scan_dec negative (c # r))"
      using scan_dec_ext [OF assms(1), of negative "c # r"] by simp
    show ?thesis
      using assms(4)
      by (simp add: scan_f_def assms(2,3) sq sg Cons an px hx scan_inf_ext [OF assms(1)]
          scan_hex_ext [OF assms(1)] dc del: drop_append)
  qed
qed

lemma token_split:
  "token p @ dropWhile (\<lambda>c. \<not> isspace c) p = p"
  by (simp add: token_def)

lemma ws_start_rest: "ws_start (dropWhile (\<lambda>c. \<not> isspace c) p)"
proof (cases "dropWhile (\<lambda>c. \<not> isspace c) p")
  case Nil
  show ?thesis unfolding ws_start_def Nil by simp
next
  case (Cons c r)
  then have "isspace c"
    using hd_dropWhile [of "\<lambda>c. \<not> isspace c" p] by simp
  then show ?thesis unfolding ws_start_def Cons by simp
qed

lemma skip_ws_token:
  assumes "skip_ws s \<noteq> []"
  shows "skip_ws (token (skip_ws s)) = token (skip_ws s)" and "token (skip_ws s) \<noteq> []"
proof -
  obtain c r where cr: "skip_ws s = c # r" using assms by (cases "skip_ws s") auto
  then have c: "\<not> isspace c" by (rule hd_skip_ws)
  then show "skip_ws (token (skip_ws s)) = token (skip_ws s)"
    unfolding cr by (simp add: token_def skip_ws_def)
  show "token (skip_ws s) \<noteq> []"
    unfolding cr using c by (simp add: token_def)
qed

lemma scan_f_tokens:
  "map_option fst (scan_f s)
   = (case tokens s of [] \<Rightarrow> None | t # ts \<Rightarrow> map_option fst (scan_f t))"
proof (cases "skip_ws s = []")
  case True
  then show ?thesis
    by (simp add: tokens.simps [of s] scan_f_def)
next
  case False
  have "map_option fst (scan_f s) = map_option fst (scan_f (token (skip_ws s)))"
    by (rule scan_f_ext [OF ws_start_rest [of "skip_ws s"], where t = "token (skip_ws s)"])
       (simp_all add: token_split skip_ws_token [OF False])
  with False show ?thesis
    by (simp add: tokens.simps [of s])
qed

lemma takeWhile_take:
  "length (takeWhile P xs) \<le> n \<Longrightarrow> takeWhile P (take n xs) = takeWhile P xs"
proof (induction xs arbitrary: n)
  case Nil
  show ?case by simp
next
  case (Cons x xs)
  then show ?case by (cases n) (auto split: if_splits)
qed

lemma scan_s_tokens:
  assumes "tokens s = name # rest" and "length name \<le> w"
  shows "\<exists>r. scan_s w s = Some (name, r) \<and> tokens r = rest"
proof -
  have ne: "skip_ws s \<noteq> []"
    using assms(1) by (auto simp: tokens.simps [of s] split: if_splits)
  then have n: "name = token (skip_ws s)"
    and r: "rest = tokens (dropWhile (\<lambda>c. \<not> isspace c) (skip_ws s))"
    using assms(1) by (simp_all add: tokens.simps [of s])
  have t: "token (take w (skip_ws s)) = name"
    using assms(2) unfolding n token_def by (rule takeWhile_take)
  have "drop (length name) (skip_ws s) = dropWhile (\<lambda>c. \<not> isspace c) (skip_ws s)"
    unfolding n token_def by (simp add: dropWhile_eq_drop)
  then show ?thesis
    using ne t r by (simp add: scan_s_def Let_def)
qed

lemma scan_skip_tokens:
  "scan_skip s = (case tokens s of [] \<Rightarrow> None
                  | t # ts \<Rightarrow> Some (dropWhile (\<lambda>c. \<not> isspace c) (skip_ws s)))"
  "tokens s = t # ts \<Longrightarrow> tokens (dropWhile (\<lambda>c. \<not> isspace c) (skip_ws s)) = ts"
  by (auto simp: scan_skip_def tokens.simps [of s] Let_def split: if_splits)

lemma scan_atomtype_tokens:
  assumes "tokens line = name # rest" and "length name \<le> 15"
  shows "scan_atomtype line = map_option (\<lambda>m. (name, m)) (mass_field (name # rest))"
proof -
  obtain r1 where r1: "scan_s 15 line = Some (name, r1)" "tokens r1 = rest"
    using scan_s_tokens [OF assms] by blast
  have f1: "map_option fst (scan_f r1)
      = (case rest of [] \<Rightarrow> None | t # ts \<Rightarrow> map_option fst (scan_f t))"
    by (simp add: scan_f_tokens r1(2))
  show ?thesis
  proof (cases "scan_f r1")
    case (Some a)
    then obtain t2 ts where rest: "rest = t2 # ts"
      using f1 by (cases rest) auto
    have "map_option fst (scan_f t2) = Some (fst a)"
      using f1 Some by (simp add: rest)
    then show ?thesis
      using Some by (auto simp: scan_atomtype_def r1(1) mass_field_def rest split: prod.splits)
  next
    case None
    have m1: "\<not> (length (name # rest) \<ge> 2 \<and> scan_f ((name # rest) ! 1) \<noteq> None)"
      using f1 None by (cases rest) auto
    show ?thesis
    proof (cases rest)
      case Nil
      then show ?thesis
        using None r1 by (simp add: scan_atomtype_def mass_field_def scan_skip_tokens(1))
    next
      case t2: (Cons t2 ts2)
      let ?r2 = "dropWhile (\<lambda>c. \<not> isspace c) (skip_ws r1)"
      have s2: "scan_skip r1 = Some ?r2" "tokens ?r2 = ts2"
        using scan_skip_tokens [of r1] r1(2) t2 by simp_all
      show ?thesis
      proof (cases ts2)
        case Nil
        then show ?thesis
          using None r1 s2 t2 m1
          by (simp add: scan_atomtype_def mass_field_def scan_skip_tokens(1))
      next
        case t3: (Cons t3 ts3)
        let ?r3 = "dropWhile (\<lambda>c. \<not> isspace c) (skip_ws ?r2)"
        have s3: "scan_skip ?r2 = Some ?r3" "tokens ?r3 = ts3"
          using scan_skip_tokens [of ?r2] s2(2) t3 by simp_all
        have f3: "map_option fst (scan_f ?r3)
            = (case ts3 of [] \<Rightarrow> None | t # ts \<Rightarrow> map_option fst (scan_f t))"
          by (simp add: scan_f_tokens s3(2))
        show ?thesis
        proof (cases ts3)
          case Nil
          then have "scan_f ?r3 = None" using f3 by simp
          then show ?thesis
            using None r1 s2 s3 t2 t3 Nil m1
            by (simp add: scan_atomtype_def mass_field_def)
        next
          case t4: (Cons t4 ts4)
          have "map_option fst (scan_f ?r3) = map_option fst (scan_f t4)"
            using f3 t4 by simp
          then show ?thesis
            using None r1 s2 s3 t2 t3 t4 m1
            by (cases "scan_f ?r3"; cases "scan_f t4")
               (auto simp: scan_atomtype_def mass_field_def)
        qed
      qed
    qed
  qed
qed

subsection \<open>The mass field of an atom-type record\<close>

text \<open>
  C9 (as amended). For an \<^verbatim>\<open>[ atomtypes ]\<close> record line whose first token has at most 15
  characters: if \<^verbatim>\<open>%f\<close> accepts the second white-space separated token, or a prefix of it, the
  mass of the stored record is the value that \<^verbatim>\<open>%f\<close> reads from that token (the MARTINI form),
  even when the line has a fourth token from which \<^verbatim>\<open>%f\<close> reads a different value; only when
  \<^verbatim>\<open>%f\<close> does not accept the second token and the line has at least four tokens, of which it
  accepts the fourth or a prefix of it, is the value read from the fourth token stored (the
  GROMACS form); otherwise nothing is stored. The record is stored under the first token as
  its name, while the table has fewer than 1000 entries.
\<close>

theorem atomtype_mass_selection:
  assumes "\<not> is_preprocessor_directive line"
    and "is_section_header (strip_comments line) = None"
    and "tokens (strip_comments line) = name # rest"
    and "length name \<le> 15"
  shows "atomtypes (snd (parse_atomtypes_section [line] data))
         = (case mass_field (name # rest) of
              None \<Rightarrow> atomtypes data
            | Some m \<Rightarrow>
                if length (atomtypes data) < MAX_ATOMTYPES
                then atomtypes data @ [\<lparr>at_name = name, at_mass = m\<rparr>]
                else atomtypes data)"
proof -
  have ne: "strip_comments line \<noteq> []"
    using assms(3) by (auto simp: tokens.simps [of "strip_comments line"] skip_ws_def)
  have "snd (parse_atomtypes_section [line] data) = atomtype_record (strip_comments line) data"
    using assms(1,2) ne by (simp add: parse_atomtypes_section_def)
  then show ?thesis
    using assms(4)
    by (simp add: atomtype_record_def scan_atomtype_tokens [OF assms(3,4)] split: option.splits)
qed

text \<open>
  The witness: a line on which both forms scan, a line of the GROMACS form, and a line whose
  second token is \<^verbatim>\<open>1e\<close>, from which \<^verbatim>\<open>%f\<close> reads 1.
\<close>

theorem atomtype_mass_selection_witness:
  "tokens (strip_comments (''CT 12.011 0.0 15.5 ; both scan'' @ [CHR 0x0A]))
     = [''CT'', ''12.011'', ''0.0'', ''15.5'']
   \<and> atomtypes (snd (parse_atomtypes_section [''CT 12.011 0.0 15.5 ; both scan'' @ [CHR 0x0A]]
        calloc_grotop_data)) = [\<lparr>at_name = ''CT'', at_mass = float_of_rat (12011 / 1000)\<rparr>]
   \<and> tokens (strip_comments (''CT C 6 12.011 0.0 A'' @ [CHR 0x0A]))
     = [''CT'', ''C'', ''6'', ''12.011'', ''0.0'', ''A'']
   \<and> atomtypes (snd (parse_atomtypes_section [''CT C 6 12.011 0.0 A'' @ [CHR 0x0A]]
        calloc_grotop_data)) = [\<lparr>at_name = ''CT'', at_mass = float_of_rat (12011 / 1000)\<rparr>]
   \<and> tokens (strip_comments (''X 1e 3 4.5'' @ [CHR 0x0A])) = [''X'', ''1e'', ''3'', ''4.5'']
   \<and> atomtypes (snd (parse_atomtypes_section [''X 1e 3 4.5'' @ [CHR 0x0A]]
        calloc_grotop_data)) = [\<lparr>at_name = ''X'', at_mass = Finite 1\<rparr>]"
proof -
  let ?l1 = "''CT 12.011 0.0 15.5 ; both scan'' @ [CHR 0x0A]"
  let ?l2 = "''CT C 6 12.011 0.0 A'' @ [CHR 0x0A]"
  let ?l3 = "''X 1e 3 4.5'' @ [CHR 0x0A]"
  have d1: "\<not> is_preprocessor_directive ?l1" and h1: "is_section_header (strip_comments ?l1) = None"
    and t1: "tokens (strip_comments ?l1) = ''CT'' # [''12.011'', ''0.0'', ''15.5'']"
    and d2: "\<not> is_preprocessor_directive ?l2" and h2: "is_section_header (strip_comments ?l2) = None"
    and t2: "tokens (strip_comments ?l2) = ''CT'' # [''C'', ''6'', ''12.011'', ''0.0'', ''A'']"
    and d3: "\<not> is_preprocessor_directive ?l3" and h3: "is_section_header (strip_comments ?l3) = None"
    and t3: "tokens (strip_comments ?l3) = ''X'' # [''1e'', ''3'', ''4.5'']"
    by code_simp+
  have n: "length ''CT'' \<le> 15" "length ''X'' \<le> 15" by simp_all
  have m1: "mass_field (''CT'' # [''12.011'', ''0.0'', ''15.5''])
      = Some (float_of_rat (12011 / 1000))"
    and m2: "mass_field (''CT'' # [''C'', ''6'', ''12.011'', ''0.0'', ''A''])
      = Some (float_of_rat (12011 / 1000))"
    and m3: "mass_field (''X'' # [''1e'', ''3'', ''4.5'']) = Some (Finite 1)"
    by code_simp+
  have room: "length (atomtypes calloc_grotop_data) < MAX_ATOMTYPES"
    by (simp add: calloc_grotop_data_def MAX_ATOMTYPES_def)
  have a1: "atomtypes (snd (parse_atomtypes_section [?l1] calloc_grotop_data))
      = [\<lparr>at_name = ''CT'', at_mass = float_of_rat (12011 / 1000)\<rparr>]"
    using atomtype_mass_selection [OF d1 h1 t1 n(1), of calloc_grotop_data] room
    by (simp only: m1 option.case if_True) (simp add: calloc_grotop_data_def)
  have a2: "atomtypes (snd (parse_atomtypes_section [?l2] calloc_grotop_data))
      = [\<lparr>at_name = ''CT'', at_mass = float_of_rat (12011 / 1000)\<rparr>]"
    using atomtype_mass_selection [OF d2 h2 t2 n(1), of calloc_grotop_data] room
    by (simp only: m2 option.case if_True) (simp add: calloc_grotop_data_def)
  have a3: "atomtypes (snd (parse_atomtypes_section [?l3] calloc_grotop_data))
      = [\<lparr>at_name = ''X'', at_mass = Finite 1\<rparr>]"
    using atomtype_mass_selection [OF d3 h3 t3 n(2), of calloc_grotop_data] room
    by (simp only: m3 option.case if_True) (simp add: calloc_grotop_data_def)
  show ?thesis
    using t1 a1 t2 a2 t3 a3 by (intro conjI)
qed

text \<open>
  The claim as stated fails in three ways. For a first token of more than 15 characters,
  \<^verbatim>\<open>%15s\<close> reads 15 of them and \<^verbatim>\<open>%f\<close> goes on with the rest of the first token: on the first
  line below the second token \<^verbatim>\<open>5.0\<close> is a float, and the mass stored is 7. A token need not be
  a float as a whole for \<^verbatim>\<open>%f\<close> to accept it: on the second line the second token \<^verbatim>\<open>12abc\<close> is
  not a float (\<^verbatim>\<open>%f\<close> leaves \<^verbatim>\<open>abc\<close> unread) and the fourth is, and the mass stored is the 12 of
  the second token, not the 4.5 of the fourth. And when the table already has 1000 entries
  nothing is stored, whatever the tokens are.
\<close>

theorem atomtype_mass_counterexample:
  "tokens (strip_comments (''ABCDEFGHIJKLMNO7 5.0'' @ [CHR 0x0A])) = [''ABCDEFGHIJKLMNO7'', ''5.0'']
   \<and> scan_f ''5.0'' = Some (Finite 5, [])
   \<and> atomtypes (snd (parse_atomtypes_section [''ABCDEFGHIJKLMNO7 5.0'' @ [CHR 0x0A]]
        calloc_grotop_data)) = [\<lparr>at_name = ''ABCDEFGHIJKLMNO'', at_mass = Finite 7\<rparr>]
   \<and> tokens (strip_comments (''X 12abc 3 4.5'' @ [CHR 0x0A])) = [''X'', ''12abc'', ''3'', ''4.5'']
   \<and> scan_f ''12abc'' = Some (Finite 12, ''abc'')
   \<and> scan_f ''4.5'' = Some (Finite (9 / 2), [])
   \<and> atomtypes (snd (parse_atomtypes_section [''X 12abc 3 4.5'' @ [CHR 0x0A]]
        calloc_grotop_data)) = [\<lparr>at_name = ''X'', at_mass = Finite 12\<rparr>]
   \<and> tokens (strip_comments (''CT 12.5'' @ [CHR 0x0A])) = [''CT'', ''12.5'']
   \<and> scan_f ''12.5'' = Some (Finite (25 / 2), [])
   \<and> atomtypes (snd (parse_atomtypes_section [''CT 12.5'' @ [CHR 0x0A]]
        (calloc_grotop_data\<lparr>atomtypes := replicate 1000 \<lparr>at_name = ''X'', at_mass = 0\<rparr>\<rparr>)))
       = replicate 1000 \<lparr>at_name = ''X'', at_mass = 0\<rparr>"
proof -
  let ?l = "''CT 12.5'' @ [CHR 0x0A]"
  let ?full = "calloc_grotop_data\<lparr>atomtypes := replicate 1000 \<lparr>at_name = ''X'', at_mass = 0\<rparr>\<rparr>"
  have a: "tokens (strip_comments (''ABCDEFGHIJKLMNO7 5.0'' @ [CHR 0x0A]))
        = [''ABCDEFGHIJKLMNO7'', ''5.0'']
      \<and> scan_f ''5.0'' = Some (Finite 5, [])
      \<and> atomtypes (snd (parse_atomtypes_section [''ABCDEFGHIJKLMNO7 5.0'' @ [CHR 0x0A]]
           calloc_grotop_data)) = [\<lparr>at_name = ''ABCDEFGHIJKLMNO'', at_mass = Finite 7\<rparr>]"
    by code_simp
  have b: "tokens (strip_comments (''X 12abc 3 4.5'' @ [CHR 0x0A]))
        = [''X'', ''12abc'', ''3'', ''4.5'']
      \<and> scan_f ''12abc'' = Some (Finite 12, ''abc'')
      \<and> scan_f ''4.5'' = Some (Finite (9 / 2), [])
      \<and> atomtypes (snd (parse_atomtypes_section [''X 12abc 3 4.5'' @ [CHR 0x0A]]
           calloc_grotop_data)) = [\<lparr>at_name = ''X'', at_mass = Finite 12\<rparr>]"
    by code_simp
  have c: "tokens (strip_comments ?l) = [''CT'', ''12.5'']
      \<and> scan_f ''12.5'' = Some (Finite (25 / 2), [])"
    by code_simp
  have l: "\<not> is_preprocessor_directive ?l \<and> strip_comments ?l \<noteq> []
      \<and> is_section_header (strip_comments ?l) = None"
    by code_simp
  have "snd (parse_atomtypes_section [?l] ?full) = atomtype_record (strip_comments ?l) ?full"
    using l by (simp add: parse_atomtypes_section_def)
  also have "\<dots> = ?full"
    by (simp add: atomtype_record_def MAX_ATOMTYPES_def split: option.splits prod.splits)
  finally have "atomtypes (snd (parse_atomtypes_section [?l] ?full))
      = replicate 1000 \<lparr>at_name = ''X'', at_mass = 0\<rparr>"
    by simp
  with a b c show ?thesis by blast
qed

subsection \<open>The preprocessor and the capacity of the tables\<close>

text \<open>
  C1 says that a record line read while the conditional stack holds a false frame adds nothing
  to the parse state. The loop of \<open>parse_lines\<close> has that check, but after every directive it
  re-enters the parser of the current section, and the record parsers read on without looking
  at the stack. Here \<^verbatim>\<open>X\<close> is never defined, and the bond inside \<^verbatim>\<open>#ifdef X\<close> is stored and emitted.
\<close>

theorem inactive_bond_is_parsed:
  "map_option (\<lambda>h. (defines_tab h, map bonds (moltypes h), read_grotop_bonds h))
     (open_grotop_read inactive_bond_top ''inactive.top'')
   = Some ([], [[\<lparr>b_ai = 1, b_aj = 2\<rparr>]], Inr (1, [1], [2]))"
  by code_simp

text \<open>
  C2 says that deleting \<^verbatim>\<open>#define X\<close> and a matching \<^verbatim>\<open>#ifdef X\<close>, \<^verbatim>\<open>#endif\<close> pair changes nothing.
  After a directive the current section is re-entered also when it is \<^verbatim>\<open>moleculetype\<close>, which
  reads the next line as the header of a new molecule type: with the directives the file below
  fails to open, without them it opens with one atom.
\<close>

theorem redundant_ifdef_is_fatal:
  "filter (\<lambda>l. \<not> is_preprocessor_directive l) guarded_atoms
     = text_file [''[ moleculetype ]'', ''M 1'', ''[ atoms ]'', ''1 C 1 RES C1 1 0.0 12.0'',
         ''[ molecules ]'', ''M 1'']
   \<and> open_grotop_read (one_file ''guarded.top'' guarded_atoms) ''guarded.top'' = None
   \<and> map_option total_atoms
        (open_grotop_read
           (one_file ''guarded.top'' (filter (\<lambda>l. \<not> is_preprocessor_directive l) guarded_atoms))
           ''guarded.top'') = Some 1"
  by code_simp

lemma header_line:
  "parse_define ''[ moleculetype ]\<newline>'' data = None"
  "parse_ifdef ''[ moleculetype ]\<newline>'' = None"
  "\<not> is_else_directive ''[ moleculetype ]\<newline>''"
  "\<not> is_endif_directive ''[ moleculetype ]\<newline>''"
  "parse_include ''[ moleculetype ]\<newline>'' filepath = None"
  "strip_comments ''[ moleculetype ]\<newline>'' = ''[ moleculetype ]''"
  "is_section_header ''[ moleculetype ]'' = Some ''moleculetype''"
  by (simp_all add: parse_define_def parse_ifdef_def is_else_directive_def is_endif_directive_def
      parse_include_def strip_comments_def is_section_header_def skip_ws_def isspace_def Let_def)

lemma record_line:
  "parse_moleculetype_header (''M 1\<newline>'' # fp) create_moltype = Some (fp, moltype_M)"
  by (simp add: strip_comments_def is_section_header_def skip_ws_def isspace_def scan_s_def
      scan_d_def scan_sign_def token_def isdigit_def dec_val_def int32_def long_sat_def Let_def
      create_moltype_def
      moltype_M_def)

lemma moltype_section_step:
  "parse_lines fs filepath depth
     (''[ moleculetype ]\<newline>'' # ''M 1\<newline>'' # fp) cs cmt [] data
   = (if length (moltypes data) < MAX_MOLTYPES
      then parse_lines fs filepath depth fp ''moleculetype'' (Some (length (moltypes data))) []
             (data\<lparr>moltypes := moltypes data @ [moltype_M]\<rparr>)
      else None)"
  by (simp add: header_line record_line process_section_def
      del: parse_moleculetype_header.simps)

lemma many_moltypes_Suc:
  "many_moltypes (Suc n) = ''[ moleculetype ]\<newline>'' # ''M 1\<newline>'' # many_moltypes n"
  by (simp add: many_moltypes_def text_file_def)

lemma parse_many_moltypes:
  "length (moltypes data) + n \<le> MAX_MOLTYPES \<Longrightarrow>
   parse_lines fs filepath depth (many_moltypes n @ rest) cs cmt [] data
   = parse_lines fs filepath depth rest
       (if n = 0 then cs else ''moleculetype'')
       (if n = 0 then cmt else Some (length (moltypes data) + n - 1)) []
       (data\<lparr>moltypes := moltypes data @ replicate n moltype_M\<rparr>)"
proof (induction n arbitrary: data cs cmt)
  case 0
  show ?case by (simp add: many_moltypes_def)
next
  case (Suc n)
  let ?d = "data\<lparr>moltypes := moltypes data @ [moltype_M]\<rparr>"
  have "length (moltypes ?d) + n \<le> MAX_MOLTYPES"
    using Suc.prems by simp
  from Suc.IH [OF this, of "''moleculetype''" "Some (length (moltypes data))"]
  show ?case
    using Suc.prems
    by (simp add: many_moltypes_Suc moltype_section_step replicate_append_same
        del: parse_lines.simps)
qed

lemma full_table_drops_item:
  "length (defines_tab data) \<ge> MAX_DEFINES \<Longrightarrow> add_define data symbol = data"
  "length (atomtypes data) \<ge> MAX_ATOMTYPES \<Longrightarrow> atomtype_record line data = data"
  "length (molecules data) \<ge> MAX_MOLECULES \<Longrightarrow> molecule_record line data = data"
  by (simp_all add: add_define_def atomtype_record_def molecule_record_def
      split: option.splits prod.splits)

text \<open>
  C7 says that an item for a full table is dropped and parsing goes on. The tables of defines,
  atom types and roster entries do so (\<open>full_table_drops_item\<close>). For the table of molecule
  types \<open>process_section\<close> returns 0 instead, which ends the parse: a file with 500 molecule
  types opens, a file with 501 does not.
\<close>

theorem moltype_table_full_is_fatal:
  "open_grotop_read (one_file ''many.top'' (many_moltypes 501)) ''many.top'' = None
   \<and> map_option (\<lambda>h. length (moltypes h))
        (open_grotop_read (one_file ''many.top'' (many_moltypes 500)) ''many.top'') = Some 500"
proof -
  have z: "length (moltypes calloc_grotop_data) + 500 \<le> MAX_MOLTYPES"
    by (simp add: calloc_grotop_data_def MAX_MOLTYPES_def)
  have "many_moltypes (500 + 1)
      = many_moltypes 500 @ [''[ moleculetype ]\<newline>'', ''M 1\<newline>'']"
    unfolding many_moltypes_def replicate_add by (simp add: text_file_def)
  then have s: "many_moltypes 501
      = many_moltypes 500 @ [''[ moleculetype ]\<newline>'', ''M 1\<newline>'']"
    by simp
  let ?F = "one_file ''many.top'' (many_moltypes 501)"
  let ?d500 = "calloc_grotop_data\<lparr>moltypes := moltypes calloc_grotop_data @ replicate 500 moltype_M\<rparr>"
  have a: "\<And>fs. parse_lines fs ''many.top'' 0
        (many_moltypes 500 @ [''[ moleculetype ]\<newline>'', ''M 1\<newline>'']) [] None [] calloc_grotop_data
      = parse_lines fs ''many.top'' 0 [''[ moleculetype ]\<newline>'', ''M 1\<newline>'']
          ''moleculetype'' (Some 499) [] ?d500"
  proof -
    fix fs
    have "length (moltypes calloc_grotop_data) = 0"
      by (simp add: calloc_grotop_data_def)
    then show "parse_lines fs ''many.top'' 0
        (many_moltypes 500 @ [''[ moleculetype ]\<newline>'', ''M 1\<newline>'']) [] None [] calloc_grotop_data
      = parse_lines fs ''many.top'' 0 [''[ moleculetype ]\<newline>'', ''M 1\<newline>'']
          ''moleculetype'' (Some 499) [] ?d500"
      by (simp add: parse_many_moltypes [OF z] del: parse_lines.simps)
  qed
  have b: "\<And>fs. parse_lines fs ''many.top'' 0 [''[ moleculetype ]\<newline>'', ''M 1\<newline>'']
          ''moleculetype'' (Some 499) [] ?d500 = None"
    by (simp add: moltype_section_step calloc_grotop_data_def MAX_MOLTYPES_def
        del: parse_lines.simps)
  have "parse_topology_file ?F ''many.top'' calloc_grotop_data 0
      = parse_lines ?F ''many.top'' 0 (many_moltypes 500 @ [''[ moleculetype ]\<newline>'', ''M 1\<newline>''])
          [] None [] calloc_grotop_data"
    by (simp add: one_file_def MAX_INCLUDES_def s)
  then have full: "parse_topology_file ?F ''many.top'' calloc_grotop_data 0 = None"
    by (simp only: a b)
  have ok: "parse_topology_file (one_file ''many.top'' (many_moltypes 500)) ''many.top''
      calloc_grotop_data 0
      = Some (calloc_grotop_data\<lparr>moltypes := replicate 500 moltype_M\<rparr>)"
    using parse_many_moltypes [OF z, of _ _ _ "[]"]
    by (simp add: one_file_def MAX_INCLUDES_def calloc_grotop_data_def)
  show ?thesis
    unfolding open_grotop_read_def full ok
    by (simp add: open_totals_def calculate_total_atoms_def calloc_grotop_data_def)
qed

end
